theory Spec2Isabelle
  imports Main
begin

section \<open>JavaScript values and strings\<close>

text \<open>
  The service is a single Express module (\<^verbatim>\<open>src/index.js\<close>). Strings are modelled as
  \<^typ>\<open>string\<close>, one \<^typ>\<open>char\<close> per UTF-16 code unit (code units above 255 are outside
  the model), so \<^const>\<open>length\<close> is JavaScript's \<^verbatim>\<open>.length\<close> and \<^const>\<open>take\<close> is
  \<^verbatim>\<open>.substring(0, n)\<close>. A value that came out of \<^verbatim>\<open>JSON.parse\<close> or out of the request body
  is a \<open>json\<close>; a missing property (\<^verbatim>\<open>undefined\<close>) is \<^const>\<open>None\<close>. Numbers are
  restricted to the integers that a double holds exactly and prints in decimal.
\<close>

datatype json =
    JNull
  | JBool bool
  | JNum int
  | JStr string
  | JArr "json list"
  | JObj "(string \<times> json) list"

datatype js_error =
    Error string
  | TypeError
  | ReferenceError string

text \<open>What a handler does with a request: it sends a response, or an exception leaves it.\<close>

datatype outcome =
    Responded nat json
  | Uncaught js_error

definition js_space :: "char \<Rightarrow> bool" where
  \<comment> \<open>the code units below 256 that \<^verbatim>\<open>\s\<close> and \<^verbatim>\<open>trim\<close> treat as white space\<close>
  "js_space c \<longleftrightarrow> c \<in> {CHR 0x09, CHR 0x0A, CHR 0x0B, CHR 0x0C, CHR 0x0D, CHR 0x20, CHR 0xA0}"

definition trim :: "string \<Rightarrow> string" where
  "trim s = rev (dropWhile js_space (rev (dropWhile js_space s)))"

fun startsWith :: "string \<Rightarrow> string \<Rightarrow> bool" where
  "startsWith s [] = True"
| "startsWith [] (p # ps) = False"
| "startsWith (c # cs) (p # ps) = (c = p \<and> startsWith cs ps)"

fun str_includes :: "string \<Rightarrow> string \<Rightarrow> bool" where
  "str_includes [] p = (p = [])"
| "str_includes (c # cs) p = (startsWith (c # cs) p \<or> str_includes cs p)"

fun truthy :: "json option \<Rightarrow> bool" where
  "truthy None = False"
| "truthy (Some JNull) = False"
| "truthy (Some (JBool b)) = b"
| "truthy (Some (JNum n)) = (n \<noteq> 0)"
| "truthy (Some (JStr s)) = (s \<noteq> [])"
| "truthy (Some (JArr xs)) = True"
| "truthy (Some (JObj kvs)) = True"

text \<open>
  \<^verbatim>\<open>value.length\<close> on a value that may be missing: strings and arrays have their length, an
  object has the property only if the JSON gave it one, with whatever value, and every
  other value has none. \<^verbatim>\<open>value.length > n\<close> compares a number as it is, \<^verbatim>\<open>undefined\<close> as
  NaN, \<^verbatim>\<open>null\<close> as 0 and a boolean as 0 or 1; a string, an array or an object is first
  converted to a number by the runtime, which is a parameter: it gives the outcome of the
  comparison or throws.
\<close>

definition length_of :: "json option \<Rightarrow> json option" where
  "length_of v =
     (case v of
        Some (JStr s) \<Rightarrow> Some (JNum (int (length s)))
      | Some (JArr xs) \<Rightarrow> Some (JNum (int (length xs)))
      | Some (JObj kvs) \<Rightarrow> map_of kvs ''length''
      | _ \<Rightarrow> None)"

definition greater :: "(json \<Rightarrow> int \<Rightarrow> js_error + bool) \<Rightarrow> json option \<Rightarrow> int \<Rightarrow> js_error + bool" where
  "greater coerce v n =
     (case v of
        None \<Rightarrow> Inr False
      | Some JNull \<Rightarrow> Inr (0 > n)
      | Some (JBool b) \<Rightarrow> Inr ((if b then 1 else 0) > n)
      | Some (JNum k) \<Rightarrow> Inr (k > n)
      | Some x \<Rightarrow> coerce x n)"

section \<open>Response Normalizer: \<^verbatim>\<open>cleanJSONResponse\<close>\<close>

text \<open>
  \<^verbatim>\<open>response.replace(/``````/g, '')\<close>: the pattern is six consecutive backticks; every
  occurrence, found left to right without overlap, is removed.
\<close>

definition backtick :: char where
  "backtick = CHR 0x60"

fun remove_fences :: "string \<Rightarrow> string" where
  "remove_fences (a # b # c # d # e # f # rest) =
     (if a = backtick \<and> b = backtick \<and> c = backtick \<and> d = backtick \<and> e = backtick \<and> f = backtick
      then remove_fences rest
      else a # remove_fences (b # c # d # e # f # rest))"
| "remove_fences s = s"

definition cleaned_text :: "string \<Rightarrow> string" where
  "cleaned_text response = trim (remove_fences response)"

text \<open>
  \<^verbatim>\<open>cleaned.match(/\{[\s\S]*\}/)\<close>: the match starts at the first opening brace and, the star
  being greedy over every character, ends at the last closing brace after it.
\<close>

definition jsonMatch :: "string \<Rightarrow> string option" where
  "jsonMatch cleaned =
     (case dropWhile (\<lambda>c. c \<noteq> CHR ''{'') cleaned of
        [] \<Rightarrow> None
      | brace # rest \<Rightarrow>
          (case dropWhile (\<lambda>c. c \<noteq> CHR ''}'') (rev rest) of
             [] \<Rightarrow> None
           | body \<Rightarrow> Some (brace # rev body)))"

definition could_not_parse :: js_error where
  "could_not_parse = Error ''Could not parse AI response as JSON''"

text \<open>
  \<^verbatim>\<open>JSON.parse\<close> belongs to the runtime; it is a parameter, \<^const>\<open>None\<close> standing for the
  SyntaxError it throws. The argument is the model's message content, \<^const>\<open>None\<close> when it
  is null.
\<close>

definition cleanJSONResponse :: "(string \<Rightarrow> json option) \<Rightarrow> string option \<Rightarrow> js_error + json" where
  "cleanJSONResponse parse response =
     (case response of
        None \<Rightarrow> Inl (Error ''Empty response'')
      | Some r \<Rightarrow>
          if r = [] then Inl (Error ''Empty response'')
          else
            (let cleaned = cleaned_text r in
             case parse cleaned of
               Some v \<Rightarrow> Inr v
             | None \<Rightarrow>
                 (case jsonMatch cleaned of
                    Some m \<Rightarrow>
                      (case parse m of
                         Some v \<Rightarrow> Inr v
                       | None \<Rightarrow> Inl could_not_parse)
                  | None \<Rightarrow> Inl could_not_parse)))"

text \<open>
  The specification's wording, for comparison: the first balanced \<^verbatim>\<open>{...}\<close> substring is
  the text from an opening brace to the closing brace that matches it, taken at the
  leftmost opening brace that has one.
\<close>

fun balanced_prefix :: "nat \<Rightarrow> string \<Rightarrow> string option" where
  \<comment> \<open>the text up to the closing brace that brings the nesting depth back to zero\<close>
  "balanced_prefix depth [] = None"
| "balanced_prefix depth (c # cs) =
     (if c = CHR ''}'' then
        (if depth = 0 then Some [c]
         else map_option ((#) c) (balanced_prefix (depth - 1) cs))
      else if c = CHR ''{'' then map_option ((#) c) (balanced_prefix (Suc depth) cs)
      else map_option ((#) c) (balanced_prefix depth cs))"

fun first_balanced :: "string \<Rightarrow> string option" where
  "first_balanced [] = None"
| "first_balanced (c # cs) =
     (if c = CHR ''{'' then
        (case balanced_prefix 0 cs of
           Some body \<Rightarrow> Some (c # body)
         | None \<Rightarrow> first_balanced cs)
      else first_balanced cs)"

section \<open>String conversion and the identifier format\<close>

fun digit_char :: "nat \<Rightarrow> char" where
  "digit_char n = (''0123456789'' ! (n mod 10))"

fun show_nat :: "nat \<Rightarrow> string" where
  "show_nat n = (if n < 10 then [digit_char n] else show_nat (n div 10) @ [digit_char n])"

definition show_int :: "int \<Rightarrow> string" where
  "show_int i = (if i < 0 then CHR ''-'' # show_nat (nat (- i)) else show_nat (nat i))"

fun join_with :: "string \<Rightarrow> string list \<Rightarrow> string" where
  "join_with sep [] = []"
| "join_with sep [x] = x"
| "join_with sep (x # y # ys) = x @ sep @ join_with sep (y # ys)"

fun collect :: "(js_error + 'a) list \<Rightarrow> js_error + 'a list" where
  \<comment> \<open>the results in order, or the first exception\<close>
  "collect [] = Inr []"
| "collect (Inl e # rs) = Inl e"
| "collect (Inr x # rs) = (case collect rs of Inl e \<Rightarrow> Inl e | Inr xs \<Rightarrow> Inr (x # xs))"

text \<open>
  \<^verbatim>\<open>String(v)\<close>, which is also what a template literal and the store client's \<^verbatim>\<open>eq\<close>
  filter apply to a value. An array joins the conversions of its elements with commas,
  \<^verbatim>\<open>null\<close> elements giving the empty string. An object has the inherited \<^verbatim>\<open>toString\<close>
  unless the JSON gave it an own \<^verbatim>\<open>toString\<close> property, which is never callable: then the
  conversion throws a TypeError.
\<close>

fun js_String :: "json \<Rightarrow> js_error + string" where
  "js_String JNull = Inr ''null''"
| "js_String (JBool b) = Inr (if b then ''true'' else ''false'')"
| "js_String (JNum n) = Inr (show_int n)"
| "js_String (JStr s) = Inr s"
| "js_String (JArr xs) =
     (case collect (map (\<lambda>x. if x = JNull then Inr [] else js_String x) xs) of
        Inl e \<Rightarrow> Inl e
      | Inr parts \<Rightarrow> Inr (join_with '','' parts))"
| "js_String (JObj kvs) =
     (if ''toString'' \<in> set (map fst kvs) then Inl TypeError else Inr ''[object Object]'')"

definition js_String_opt :: "json option \<Rightarrow> js_error + string" where
  "js_String_opt v = (case v of None \<Rightarrow> Inr ''undefined'' | Some x \<Rightarrow> js_String x)"

definition hex_digit :: "char \<Rightarrow> bool" where
  "hex_digit c \<longleftrightarrow> c \<in> set ''0123456789abcdefABCDEF''"

fun hex_run :: "nat \<Rightarrow> string \<Rightarrow> string option" where
  \<comment> \<open>\<^verbatim>\<open>[0-9a-f]{n}\<close> under the \<^verbatim>\<open>i\<close> flag: the text left after n hexadecimal digits\<close>
  "hex_run 0 s = Some s"
| "hex_run (Suc n) [] = None"
| "hex_run (Suc n) (c # cs) = (if hex_digit c then hex_run n cs else None)"

fun hex_groups :: "nat list \<Rightarrow> string \<Rightarrow> bool" where
  "hex_groups [] s = False"
| "hex_groups [n] s = (hex_run n s = Some [])"
| "hex_groups (n # m # ns) s =
     (case hex_run n s of
        Some (c # rest) \<Rightarrow> c = CHR ''-'' \<and> hex_groups (m # ns) rest
      | _ \<Rightarrow> False)"

definition uuidRegex_test :: "string \<Rightarrow> bool" where
  \<comment> \<open>\<^verbatim>\<open>/^[0-9a-f]{8}-[0-9a-f]{4}-[0-9a-f]{4}-[0-9a-f]{4}-[0-9a-f]{12}$/i\<close>\<close>
  "uuidRegex_test s = hex_groups [8, 4, 4, 4, 12] s"

section \<open>The record store\<close>

text \<open>
  A row of \<^verbatim>\<open>saved_items\<close>. Columns filled from the extractor's answer hold whatever JSON
  it gave. Timestamps are milliseconds. The store keeps a log of the queries it received:
  the table, the operation and the \<^verbatim>\<open>eq\<close> filters. The store is the external row store
  of the service: a query selects the rows that satisfy all its filters, and
  \<^verbatim>\<open>.single()\<close> reports the error coded PGRST116 unless exactly one row is concerned. Other
  store failures (network, constraints other than the primary key) are outside the model.
\<close>

record item =
  item_id :: string
  user_id :: string
  title :: "json option"
  content_type :: "json option"
  original_content :: "json option"
  original_image_url :: "json option"
  preview_data :: "json option"
  content_metadata :: json
  ai_summary :: "json option"
  ai_category :: "json option"
  ai_tags :: "json option"
  is_completed :: bool
  view_count :: "int option"
  last_viewed_at :: "nat option"
  created_at :: nat
  updated_at :: nat

datatype vote_type = upvote | downvote

record feature =
  feature_id :: string
  feature_user_id :: string
  feature_title :: string
  feature_description :: "string option"
  votes_count :: int
  feature_status :: string
  feature_category :: string

record vote =
  vote_user_id :: string
  vote_feature_id :: string
  vote_kind :: vote_type

datatype db_op = Select | Insert | Update | Delete

record query =
  q_table :: string
  q_op :: db_op
  q_filters :: "(string \<times> string) list"

record store =
  saved_items :: "item list"
  feature_votes :: "feature list"
  user_votes :: "vote list"
  queries :: "query list"

datatype db_error = PGRST116 | DbError string string

definition logged :: "string \<Rightarrow> db_op \<Rightarrow> (string \<times> string) list \<Rightarrow> store \<Rightarrow> store" where
  "logged table op' filters st =
     st\<lparr>queries := queries st @ [\<lparr>q_table = table, q_op = op', q_filters = filters\<rparr>]\<rparr>"

fun item_col :: "item \<Rightarrow> string \<Rightarrow> string option" where
  "item_col r col =
     (if col = ''id'' then Some (item_id r)
      else if col = ''user_id'' then Some (user_id r)
      else if col = ''ai_category'' then
        (case ai_category r of Some (JStr c) \<Rightarrow> Some c | _ \<Rightarrow> None)
      else None)"

definition item_matches :: "(string \<times> string) list \<Rightarrow> item \<Rightarrow> bool" where
  \<comment> \<open>the conjunction of the \<^verbatim>\<open>.eq(column, value)\<close> filters of a query\<close>
  "item_matches filters r = list_all (\<lambda>(col, v). item_col r col = Some v) filters"

definition select_items :: "(string \<times> string) list \<Rightarrow> store \<Rightarrow> item list \<times> store" where
  "select_items filters st =
     (filter (item_matches filters) (saved_items st), logged ''saved_items'' Select filters st)"

definition update_items :: "(item \<Rightarrow> item) \<Rightarrow> (string \<times> string) list \<Rightarrow> store \<Rightarrow> item list \<times> store" where
  "update_items change filters st =
     (map change (filter (item_matches filters) (saved_items st)),
      logged ''saved_items'' Update filters
        (st\<lparr>saved_items := map (\<lambda>r. if item_matches filters r then change r else r) (saved_items st)\<rparr>))"

definition delete_items :: "(string \<times> string) list \<Rightarrow> store \<Rightarrow> item list \<times> store" where
  "delete_items filters st =
     (filter (item_matches filters) (saved_items st),
      logged ''saved_items'' Delete filters
        (st\<lparr>saved_items := filter (\<lambda>r. \<not> item_matches filters r) (saved_items st)\<rparr>))"

definition insert_item :: "item \<Rightarrow> store \<Rightarrow> (db_error + item) \<times> store" where
  \<comment> \<open>the primary key rejects a row whose id is taken\<close>
  "insert_item r st =
     (if item_id r \<in> set (map item_id (saved_items st))
      then (Inl (DbError ''23505'' ''duplicate key value violates unique constraint''),
            logged ''saved_items'' Insert [] st)
      else (Inr r, logged ''saved_items'' Insert [] (st\<lparr>saved_items := saved_items st @ [r]\<rparr>)))"

definition single :: "'a list \<Rightarrow> db_error + 'a" where
  \<comment> \<open>\<^verbatim>\<open>.single()\<close>: exactly one row, or the error coded PGRST116\<close>
  "single rows = (case rows of [r] \<Rightarrow> Inr r | _ \<Rightarrow> Inl PGRST116)"

definition opt_json :: "json option \<Rightarrow> json" where
  "opt_json v = (case v of None \<Rightarrow> JNull | Some x \<Rightarrow> x)"

definition item_json :: "item \<Rightarrow> json" where
  "item_json r = JObj
     [(''id'', JStr (item_id r)),
      (''user_id'', JStr (user_id r)),
      (''title'', opt_json (title r)),
      (''content_type'', opt_json (content_type r)),
      (''original_content'', opt_json (original_content r)),
      (''original_image_url'', opt_json (original_image_url r)),
      (''preview_data'', opt_json (preview_data r)),
      (''content_metadata'', content_metadata r),
      (''ai_summary'', opt_json (ai_summary r)),
      (''ai_category'', opt_json (ai_category r)),
      (''ai_tags'', opt_json (ai_tags r)),
      (''is_completed'', JBool (is_completed r)),
      (''view_count'', (case view_count r of None \<Rightarrow> JNull | Some n \<Rightarrow> JNum n)),
      (''last_viewed_at'', (case last_viewed_at r of None \<Rightarrow> JNull | Some t \<Rightarrow> JNum (int t))),
      (''created_at'', JNum (int (created_at r))),
      (''updated_at'', JNum (int (updated_at r)))]"

section \<open>Access Control Layer: \<^verbatim>\<open>authenticateUser\<close>\<close>

text \<open>
  The identity provider's answer to \<^verbatim>\<open>supabase.auth.getUser(token)\<close>: a user record with
  its verified email, an error or no user, or an exception. A request is given by its
  \<^verbatim>\<open>Authorization\<close> header and the fields that the handler reads from its body, query or
  route.
\<close>

datatype auth_reply = AuthUser string | AuthRejected | AuthThrew

definition no_auth_token :: outcome where
  "no_auth_token = Responded 401 (JObj
     [(''error'', JStr ''Authentication required. Please provide a valid token.''),
      (''code'', JStr ''NO_AUTH_TOKEN'')])"

definition invalid_token :: outcome where
  "invalid_token = Responded 401 (JObj
     [(''error'', JStr ''Invalid or expired authentication token. Please sign in again.''),
      (''code'', JStr ''INVALID_TOKEN'')])"

definition auth_error :: outcome where
  "auth_error = Responded 401 (JObj
     [(''error'', JStr ''Authentication failed. Please sign in again.''),
      (''code'', JStr ''AUTH_ERROR'')])"

definition authenticateUser :: "(string \<Rightarrow> auth_reply) \<Rightarrow> string option \<Rightarrow> outcome + string" where
  \<comment> \<open>\<^const>\<open>Inr\<close> carries \<^verbatim>\<open>req.userId\<close> to the next handler\<close>
  "authenticateUser getUser authHeader =
     (case authHeader of
        None \<Rightarrow> Inl no_auth_token
      | Some h \<Rightarrow>
          if h = [] \<or> \<not> startsWith h ''Bearer '' then Inl no_auth_token
          else
            (let token = drop (length ''Bearer '') h in
             case getUser token of
               AuthUser email \<Rightarrow> Inr email
             | AuthRejected \<Rightarrow> Inl invalid_token
             | AuthThrew \<Rightarrow> Inl auth_error))"

definition protected ::
  "(string \<Rightarrow> auth_reply) \<Rightarrow> string option \<Rightarrow> (string \<Rightarrow> store \<Rightarrow> outcome \<times> store) \<Rightarrow> store \<Rightarrow> outcome \<times> store" where
  \<comment> \<open>a route registered as \<^verbatim>\<open>app.verb(path, authenticateUser, handler)\<close>\<close>
  "protected getUser authHeader handler st =
     (case authenticateUser getUser authHeader of
        Inl response \<Rightarrow> (response, st)
      | Inr userId \<Rightarrow> handler userId st)"

section \<open>Protected endpoints on saved items\<close>

definition error_only :: "string \<Rightarrow> json" where
  "error_only msg = JObj [(''error'', JStr msg)]"

definition success_data :: "json \<Rightarrow> json" where
  "success_data d = JObj [(''success'', JBool True), (''data'', d)]"

definition not_found_or_denied :: json where
  "not_found_or_denied = JObj
     [(''error'', JStr ''Item not found or access denied''),
      (''details'', JStr ''Either the item does not exist or you do not have permission to modify it'')]"

definition database_error :: "string \<Rightarrow> string \<Rightarrow> json" where
  "database_error code msg = JObj
     [(''error'', JStr ''Database error occurred''), (''code'', JStr code), (''message'', JStr msg)]"

definition primitive_message :: string where
  "primitive_message = ''Cannot convert object to primitive value''"

text \<open>
  \<^verbatim>\<open>GET /api/saved-items\<close>. \<^verbatim>\<open>.order('created_at', { ascending: false })\<close> is the reverse of
  a sort by creation time.
\<close>

definition get_saved_items :: "string option \<Rightarrow> string \<Rightarrow> store \<Rightarrow> outcome \<times> store" where
  "get_saved_items category userId st =
     (let filters = (''user_id'', userId) #
            (case category of
               None \<Rightarrow> []
             | Some c \<Rightarrow> if c \<noteq> [] \<and> c \<noteq> ''all'' then [(''ai_category'', c)] else [])
      in case select_items filters st of
           (rows, st') \<Rightarrow>
             (Responded 200 (JObj [(''data'', JArr (map item_json (rev (sort_key created_at rows))))]), st'))"

text \<open>\<^verbatim>\<open>PATCH /api/toggle-completion\<close>, body \<^verbatim>\<open>{itemId, completed}\<close>.\<close>

definition patch_toggle_completion ::
  "nat \<Rightarrow> json option \<Rightarrow> json option \<Rightarrow> string \<Rightarrow> store \<Rightarrow> outcome \<times> store" where
  "patch_toggle_completion now itemId completed userId st =
     (case (itemId, completed) of
        (Some itemIdValue, Some (JBool flag)) \<Rightarrow>
          if \<not> truthy itemId then
            (Responded 400 (error_only ''Invalid request: itemId and completed (boolean) are required''), st)
          else
            (case js_String itemIdValue of
               Inl e \<Rightarrow>
                 (Responded 500 (JObj [(''error'', JStr ''Failed to toggle completion''),
                                       (''message'', JStr primitive_message)]), st)
             | Inr itemIdString \<Rightarrow>
                 if \<not> uuidRegex_test itemIdString then
                   (Responded 400 (JObj
                      [(''error'', JStr ''Invalid itemId format: must be a valid UUID''),
                       (''received'', JStr itemIdString),
                       (''hint'', JStr ''Expected format: xxxxxxxx-xxxx-xxxx-xxxx-xxxxxxxxxxxx'')]), st)
                 else
                   (case update_items (\<lambda>r. r\<lparr>is_completed := flag, updated_at := now\<rparr>)
                           [(''id'', itemIdString), (''user_id'', userId)] st of
                      (rows, st') \<Rightarrow>
                        (case single rows of
                           Inl PGRST116 \<Rightarrow> (Responded 404 not_found_or_denied, st')
                         | Inl (DbError code msg) \<Rightarrow> (Responded 500 (database_error code msg), st')
                         | Inr row \<Rightarrow> (Responded 200 (success_data (item_json row)), st'))))
      | _ \<Rightarrow>
          (Responded 400 (error_only ''Invalid request: itemId and completed (boolean) are required''), st))"

text \<open>
  \<^verbatim>\<open>PATCH /api/update-title\<close>, body \<^verbatim>\<open>{itemId, title}\<close>. The handler does not check the type
  of the title: a title that is not a string and passes the two length checks makes
  \<^verbatim>\<open>title.trim()\<close> throw while the update is built, before any query.
\<close>

definition update_title_failed :: "string \<Rightarrow> json" where
  "update_title_failed msg = JObj [(''error'', JStr ''Failed to update title''), (''message'', JStr msg)]"

definition patch_update_title ::
  "(json \<Rightarrow> int \<Rightarrow> js_error + bool) \<Rightarrow> nat \<Rightarrow> json option \<Rightarrow> json option \<Rightarrow> string \<Rightarrow> store
     \<Rightarrow> outcome \<times> store" where
  "patch_update_title coerce now itemId newTitle userId st =
     (case itemId of
        None \<Rightarrow> (Responded 400 (error_only ''itemId is required''), st)
      | Some itemIdValue \<Rightarrow>
          if \<not> truthy itemId then (Responded 400 (error_only ''itemId is required''), st)
          else if \<not> truthy newTitle \<or> length_of newTitle = Some (JNum 0) then
            (Responded 400 (error_only ''Title cannot be empty''), st)
          else
            (case greater coerce (length_of newTitle) 100 of
               Inl e \<Rightarrow> (Responded 500 (update_title_failed primitive_message), st)
             | Inr True \<Rightarrow> (Responded 400 (error_only ''Title too long (max 100 characters)''), st)
             | Inr False \<Rightarrow>
                 (case js_String itemIdValue of
                    Inl e \<Rightarrow> (Responded 500 (update_title_failed primitive_message), st)
                  | Inr itemIdString \<Rightarrow>
                      if \<not> uuidRegex_test itemIdString then
                        (Responded 400 (JObj
                           [(''error'', JStr ''Invalid itemId format: must be a valid UUID''),
                            (''received'', JStr itemIdString)]), st)
                      else
                        (case newTitle of
                           Some (JStr t) \<Rightarrow>
                             (case update_items
                                     (\<lambda>r. r\<lparr>title := Some (JStr (take 100 (trim t))), updated_at := now\<rparr>)
                                     [(''id'', itemIdString), (''user_id'', userId)] st of
                                (rows, st') \<Rightarrow>
                                  (case single rows of
                                     Inl PGRST116 \<Rightarrow> (Responded 404 not_found_or_denied, st')
                                   | Inl (DbError code msg) \<Rightarrow>
                                       (Responded 500 (database_error code msg), st')
                                   | Inr row \<Rightarrow> (Responded 200 (success_data (item_json row)), st')))
                         | _ \<Rightarrow>
                             (Responded 500 (update_title_failed ''title.trim is not a function''), st)))))"

text \<open>
  \<^verbatim>\<open>DELETE /api/delete-item\<close>, body \<^verbatim>\<open>{itemId}\<close>. The id goes to the filter unchecked, converted
  to a string by the store client; every store error is answered 404.
\<close>

definition delete_delete_item :: "json option \<Rightarrow> string \<Rightarrow> store \<Rightarrow> outcome \<times> store" where
  "delete_delete_item itemId userId st =
     (case js_String_opt itemId of
        Inl e \<Rightarrow> (Responded 500 (error_only ''Failed to delete item''), st)
      | Inr itemIdString \<Rightarrow>
          (case delete_items [(''id'', itemIdString), (''user_id'', userId)] st of
             (rows, st') \<Rightarrow>
               (case single rows of
                  Inl e \<Rightarrow> (Responded 404 (error_only ''Item not found or access denied''), st')
                | Inr row \<Rightarrow> (Responded 200 (success_data (item_json row)), st'))))"

text \<open>
  \<^verbatim>\<open>GET /api/item/:itemId\<close>: the row is read, then its view count is written, then the row
  that was read is sent.
\<close>

definition get_item :: "nat \<Rightarrow> string \<Rightarrow> string \<Rightarrow> store \<Rightarrow> outcome \<times> store" where
  "get_item now itemId userId st =
     (case select_items [(''id'', itemId), (''user_id'', userId)] st of
        (rows, st') \<Rightarrow>
          (case single rows of
             Inl e \<Rightarrow> (Responded 404 (error_only ''Item not found or access denied''), st')
           | Inr data \<Rightarrow>
               (case update_items
                       (\<lambda>r. r\<lparr>view_count := Some ((case view_count data of None \<Rightarrow> 0 | Some n \<Rightarrow> if n = 0 then 0 else n) + 1),
                               last_viewed_at := Some now\<rparr>)
                       [(''id'', itemId), (''user_id'', userId)] st' of
                  (updated, st'') \<Rightarrow> (Responded 200 (success_data (item_json data)), st''))))"

section \<open>Feature suggestions and votes\<close>






definition vote_of :: "string \<Rightarrow> string \<Rightarrow> vote \<Rightarrow> bool" where
  \<comment> \<open>\<^verbatim>\<open>.eq('user_id', userId).eq('feature_id', feature_id)\<close> on \<^verbatim>\<open>user_votes\<close>\<close>
  "vote_of userId fid v \<longleftrightarrow> vote_user_id v = userId \<and> vote_feature_id v = fid"

definition insert_vote :: "vote \<Rightarrow> store \<Rightarrow> store" where
  \<comment> \<open>Modelled from the spec: the table's schema is not in the sources; a vote is unique per
      (owner, feature), so a second row for the pair is refused (the callers ignore the error).\<close>
  "insert_vote v st =
     logged ''user_votes'' Insert []
       (if list_ex (vote_of (vote_user_id v) (vote_feature_id v)) (user_votes st) then st
        else st\<lparr>user_votes := user_votes st @ [v]\<rparr>)"

text \<open>
  \<^verbatim>\<open>POST /api/features\<close>, body \<^verbatim>\<open>{title, description}\<close>. The handler does not check the types:
  a truthy title that is not a string makes \<^verbatim>\<open>title.trim()\<close> throw at the first check, and a
  description that is neither a string nor null makes \<^verbatim>\<open>description?.trim()\<close> throw when the
  row to insert is built, after the duplicate query. The id of the new row is the store's
  choice.
\<close>

definition description_too_long :: "(json \<Rightarrow> int \<Rightarrow> js_error + bool) \<Rightarrow> json option \<Rightarrow> js_error + bool" where
  \<comment> \<open>\<^verbatim>\<open>description && description.length > 500\<close>\<close>
  "description_too_long coerce description =
     (if truthy description then greater coerce (length_of description) 500 else Inr False)"




definition increment_votes :: "string \<Rightarrow> int \<Rightarrow> store \<Rightarrow> store" where
  \<comment> \<open>Modelled from the spec: the stored procedure \<^verbatim>\<open>increment_votes\<close> is not in the sources;
      the specification calls it an atomic increment of the feature's vote count.\<close>
  "increment_votes fid increment_by st =
     st\<lparr>feature_votes :=
          map (\<lambda>f. if feature_id f = fid then f\<lparr>votes_count := votes_count f + increment_by\<rparr> else f)
            (feature_votes st)\<rparr>"

definition parse_vote_type :: "string option \<Rightarrow> vote_type option" where
  \<comment> \<open>\<^verbatim>\<open>vote_type && ['upvote', 'downvote'].includes(vote_type)\<close>\<close>
  "parse_vote_type v =
     (case v of
        None \<Rightarrow> None
      | Some s \<Rightarrow> if s = ''upvote'' then Some upvote else if s = ''downvote'' then Some downvote else None)"

definition vote_type_name :: "vote_type \<Rightarrow> string" where
  "vote_type_name k = (case k of upvote \<Rightarrow> ''upvote'' | downvote \<Rightarrow> ''downvote'')"

text \<open>
  The three cases of \<^verbatim>\<open>POST /api/features/vote\<close> on the caller's vote row: the change to
  the count and the new \<^verbatim>\<open>user_votes\<close> table.
\<close>

definition apply_vote :: "string \<Rightarrow> string \<Rightarrow> vote_type \<Rightarrow> store \<Rightarrow> int \<times> store" where
  "apply_vote userId fid kind st =
     (case single (filter (vote_of userId fid) (user_votes st)) of
        Inr existingVote \<Rightarrow>
          if vote_kind existingVote = kind then
            (if kind = upvote then - 1 else 1,
             logged ''user_votes'' Delete [(''user_id'', userId), (''feature_id'', fid)]
               (logged ''user_votes'' Select [(''user_id'', userId), (''feature_id'', fid)] st
                  \<lparr>user_votes := filter (\<lambda>v. \<not> vote_of userId fid v) (user_votes st)\<rparr>))
          else
            (if kind = upvote then 2 else - 2,
             logged ''user_votes'' Update [(''user_id'', userId), (''feature_id'', fid)]
               (logged ''user_votes'' Select [(''user_id'', userId), (''feature_id'', fid)] st
                  \<lparr>user_votes := map (\<lambda>v. if vote_of userId fid v then v\<lparr>vote_kind := kind\<rparr> else v)
                                     (user_votes st)\<rparr>))
      | Inl e \<Rightarrow>
          (if kind = upvote then 1 else - 1,
           insert_vote \<lparr>vote_user_id = userId, vote_feature_id = fid, vote_kind = kind\<rparr>
             (logged ''user_votes'' Select [(''user_id'', userId), (''feature_id'', fid)] st)))"

text \<open>
  The count update: the stored procedure, and when it reports an error (\<open>rpc_fails\<close>) the
  manual read-modify-write.
\<close>

definition update_vote_count :: "bool \<Rightarrow> string \<Rightarrow> int \<Rightarrow> store \<Rightarrow> store" where
  "update_vote_count rpc_fails fid voteChange st =
     (if \<not> rpc_fails then increment_votes fid voteChange st
      else
        (case single (filter (\<lambda>f. feature_id f = fid) (feature_votes st)) of
           Inl e \<Rightarrow> logged ''feature_votes'' Select [(''id'', fid)] st
         | Inr featureData \<Rightarrow>
             logged ''feature_votes'' Update [(''id'', fid)]
               (logged ''feature_votes'' Select [(''id'', fid)] st
                  \<lparr>feature_votes :=
                     map (\<lambda>f. if feature_id f = fid
                               then f\<lparr>votes_count :=
                                      max 0 ((if votes_count featureData = 0 then 0 else votes_count featureData) + voteChange)\<rparr>
                               else f)
                       (feature_votes st)\<rparr>)))"

definition post_features_vote ::
  "bool \<Rightarrow> string option \<Rightarrow> string option \<Rightarrow> string \<Rightarrow> store \<Rightarrow> outcome \<times> store" where
  "post_features_vote rpc_fails feature_id_field vote_type_field userId st =
     (case feature_id_field of
        None \<Rightarrow> (Responded 400 (error_only ''feature_id is required''), st)
      | Some fid \<Rightarrow>
          if fid = [] then (Responded 400 (error_only ''feature_id is required''), st)
          else
            (case parse_vote_type vote_type_field of
               None \<Rightarrow> (Responded 400 (error_only ''vote_type must be upvote or downvote''), st)
             | Some kind \<Rightarrow>
                 (case apply_vote userId fid kind st of
                    (voteChange, st1) \<Rightarrow>
                      (Responded 200 (JObj [(''success'', JBool True), (''vote_change'', JNum voteChange)]),
                       update_vote_count rpc_fails fid voteChange st1))))"

section \<open>Content Extractor: \<^verbatim>\<open>POST /api/analyze\<close>\<close>

text \<open>
  The body is \<^verbatim>\<open>{content, contentType}\<close>. The content is a string (an image reference or a
  note) or the scraped page, whose fields are strings when present.
\<close>

record page =
  page_title :: "string option"
  page_description :: "string option"
  page_url :: "string option"
  page_author :: "string option"

datatype content = TextContent string | PageContent page

definition or_else :: "string option \<Rightarrow> string \<Rightarrow> string" where
  \<comment> \<open>\<^verbatim>\<open>value || fallback\<close> on a string that may be missing\<close>
  "or_else v fallback = (case v of None \<Rightarrow> fallback | Some s \<Rightarrow> if s = [] then fallback else s)"

definition content_url :: "content \<Rightarrow> string option" where
  "content_url c = (case c of TextContent s \<Rightarrow> None | PageContent p \<Rightarrow> page_url p)"

definition content_title :: "content \<Rightarrow> string option" where
  "content_title c = (case c of TextContent s \<Rightarrow> None | PageContent p \<Rightarrow> page_title p)"

definition content_description :: "content \<Rightarrow> string option" where
  "content_description c = (case c of TextContent s \<Rightarrow> None | PageContent p \<Rightarrow> page_description p)"

definition content_author :: "content \<Rightarrow> string option" where
  "content_author c = (case c of TextContent s \<Rightarrow> None | PageContent p \<Rightarrow> page_author p)"

definition is_instagram :: "string \<Rightarrow> bool" where
  "is_instagram u \<longleftrightarrow> str_includes u ''instagram.com'' \<or> str_includes u ''instagr.am''"

definition id_char :: "char \<Rightarrow> bool" where
  "id_char c \<longleftrightarrow> c \<in> set ''ABCDEFGHIJKLMNOPQRSTUVWXYZabcdefghijklmnopqrstuvwxyz0123456789_-''"

definition segment_here :: "string \<Rightarrow> string \<Rightarrow> bool" where
  \<comment> \<open>the text starts with the segment and at least one identifier character follows\<close>
  "segment_here s seg \<longleftrightarrow>
     startsWith s seg \<and> (case drop (length seg) s of [] \<Rightarrow> False | c # cs \<Rightarrow> id_char c)"

fun postMatch :: "string \<Rightarrow> string option" where
  \<comment> \<open>group 1 of the leftmost match of \<^verbatim>\<open>/\/(p|reel|reels)\/([A-Za-z0-9_-]+)/\<close>\<close>
  "postMatch [] = None"
| "postMatch (c # cs) =
     (if segment_here (c # cs) ''/p/'' then Some ''p''
      else if segment_here (c # cs) ''/reel/'' then Some ''reel''
      else if segment_here (c # cs) ''/reels/'' then Some ''reels''
      else postMatch cs)"

definition postType_of :: "string \<Rightarrow> string" where
  "postType_of u = (case postMatch u of Some t \<Rightarrow> t | None \<Rightarrow> ''post'')"

definition double_quote :: char where
  "double_quote = CHR 0x22"

definition line_terminator :: "char \<Rightarrow> bool" where
  "line_terminator c \<longleftrightarrow> c = CHR 0x0A \<or> c = CHR 0x0D"

fun strip_branding :: "string \<Rightarrow> string option" where
  \<comment> \<open>what follows the match of \<^verbatim>\<open>/^.*? on Instagram: "?/\<close>, when there is one: the dot
      matches no line terminator, the match ends at the first occurrence of the marker\<close>
  "strip_branding s =
     (if startsWith s '' on Instagram: '' then
        (case drop (length '' on Instagram: '') s of
           [] \<Rightarrow> Some []
         | c # cs \<Rightarrow> if c = double_quote then Some cs else Some (c # cs))
      else
        (case s of
           [] \<Rightarrow> None
         | c # cs \<Rightarrow> if line_terminator c then None else strip_branding cs))"

definition drop_final_quote :: "string \<Rightarrow> string" where
  \<comment> \<open>\<^verbatim>\<open>.replace(/"$/, '')\<close>\<close>
  "drop_final_quote s = (if s \<noteq> [] \<and> last s = double_quote then butlast s else s)"

definition clean_instagram_title :: "string \<Rightarrow> string" where
  "clean_instagram_title t =
     (if t = ''Instagram'' \<or> str_includes t ''Instagram:''
      then trim (drop_final_quote (case strip_branding t of None \<Rightarrow> t | Some rest \<Rightarrow> rest))
      else t)"

definition instagram_result :: "content \<Rightarrow> string \<Rightarrow> json" where
  \<comment> \<open>the record that the Instagram branch sends by itself, without the model\<close>
  "instagram_result c u =
     (let postType = postType_of u;
          title0 = clean_instagram_title (or_else (content_title c) []);
          description0 = or_else (content_description c) [];
          generic = (title0 = [] \<or> length title0 < 10);
          title1 = (if generic then (if postType = ''reel'' then ''Instagram Reel'' else ''Instagram Post'')
                    else title0);
          description1 =
            (if generic then
               (case content_author c of
                  None \<Rightarrow> ''Saved from Instagram''
                | Some a \<Rightarrow> if a = [] then ''Saved from Instagram'' else ''Content by '' @ a)
             else description0)
      in JObj
           [(''title'', JStr (take 60 title1)),
            (''category'', JStr ''Entertainment''),
            (''summary'', JStr (if description1 = [] then ''Instagram content saved for later viewing''
                                else description1)),
            (''tags'', JArr [JStr ''instagram'',
                             JStr (if postType = ''reel'' then ''video'' else ''photo''),
                             JStr ''social-media'']),
            (''content_type'', JStr (if postType = ''reel'' then ''video'' else ''photo'')),
            (''platform'', JStr ''instagram'')])"

definition field :: "json \<Rightarrow> string \<Rightarrow> json option" where
  \<comment> \<open>reading a property of a value that is neither null nor undefined\<close>
  "field v k = (case v of JObj kvs \<Rightarrow> map_of kvs k | _ \<Rightarrow> None)"

fun assign :: "string \<Rightarrow> json \<Rightarrow> (string \<times> json) list \<Rightarrow> (string \<times> json) list" where
  \<comment> \<open>\<^verbatim>\<open>object.k = v\<close>: an existing property keeps its place, a new one goes last\<close>
  "assign k v [] = [(k, v)]"
| "assign k v ((k', v') # kvs) = (if k' = k then (k, v) # kvs else (k', v') # assign k v kvs)"

definition set_field :: "json \<Rightarrow> string \<Rightarrow> json \<Rightarrow> json" where
  "set_field obj k v = (case obj of JObj kvs \<Rightarrow> JObj (assign k v kvs) | _ \<Rightarrow> obj)"

definition slice_tags :: "json option \<Rightarrow> js_error + json" where
  \<comment> \<open>\<^verbatim>\<open>(analysisResult.tags || []).slice(0, 5)\<close>: arrays and strings have \<^verbatim>\<open>slice\<close>\<close>
  "slice_tags tags =
     (if \<not> truthy tags then Inr (JArr [])
      else
        (case tags of
           Some (JArr xs) \<Rightarrow> Inr (JArr (take 5 xs))
         | Some (JStr s) \<Rightarrow> Inr (JStr (take 5 s))
         | _ \<Rightarrow> Inl TypeError))"

definition validate_and_clean :: "json option \<Rightarrow> js_error + json" where
  \<comment> \<open>the "Validation & cleanup" step on \<^verbatim>\<open>analysisResult\<close>\<close>
  "validate_and_clean analysisResult =
     (case analysisResult of
        None \<Rightarrow> Inl TypeError
      | Some JNull \<Rightarrow> Inl TypeError
      | Some r \<Rightarrow>
          if \<not> truthy (field r ''title'') \<or> \<not> truthy (field r ''category'') \<or> \<not> truthy (field r ''summary'')
          then Inl (Error ''Invalid AI response format'')
          else
            (case field r ''title'' of
               Some (JStr t) \<Rightarrow>
                 (case field r ''summary'' of
                    Some (JStr sm) \<Rightarrow>
                      (case slice_tags (field r ''tags'') of
                         Inl e \<Rightarrow> Inl e
                       | Inr tags \<Rightarrow>
                           Inr (set_field
                                  (set_field (set_field r ''title'' (JStr (take 60 t)))
                                     ''summary'' (JStr (take 300 sm)))
                                  ''tags'' tags))
                  | _ \<Rightarrow> Inl TypeError)
             | _ \<Rightarrow> Inl TypeError))"

text \<open>
  The language model is a parameter: given the branch that calls it and the content, it
  answers with the message text (\<^const>\<open>None\<close> for a null content) or the call throws.
\<close>

definition ask_model ::
  "(string \<Rightarrow> json option) \<Rightarrow> (string \<Rightarrow> content \<Rightarrow> js_error + string option) \<Rightarrow> string \<Rightarrow> content
     \<Rightarrow> js_error + json" where
  "ask_model parse chat branch c =
     (case chat branch c of
        Inl e \<Rightarrow> Inl e
      | Inr rawResponse \<Rightarrow> cleanJSONResponse parse rawResponse)"

definition analyze_try ::
  "(string \<Rightarrow> json option) \<Rightarrow> (string \<Rightarrow> content \<Rightarrow> js_error + string option) \<Rightarrow> content \<Rightarrow> string
     \<Rightarrow> js_error + json" where
  \<comment> \<open>the try block: the body it sends with status 200, or the exception it throws\<close>
  "analyze_try parse chat c contentType =
     (if contentType = ''image'' then
        (case ask_model parse chat ''image'' c of
           Inl e \<Rightarrow> Inl e
         | Inr analysisResult \<Rightarrow> validate_and_clean (Some analysisResult))
      else if contentType = ''url'' then
        (case content_url c of
           Some u \<Rightarrow>
             if u \<noteq> [] \<and> is_instagram u then Inr (instagram_result c u)
             else
               (case ask_model parse chat ''url'' c of
                  Inl e \<Rightarrow> Inl e
                | Inr analysisResult \<Rightarrow> validate_and_clean (Some analysisResult))
         | None \<Rightarrow>
             (case ask_model parse chat ''url'' c of
                Inl e \<Rightarrow> Inl e
              | Inr analysisResult \<Rightarrow> validate_and_clean (Some analysisResult)))
      else if contentType = ''text'' then
        (case ask_model parse chat ''text'' c of
           Inl e \<Rightarrow> Inl e
         | Inr analysisResult \<Rightarrow> validate_and_clean (Some analysisResult))
      else validate_and_clean None)"

text \<open>
  The catch block. An identifier is looked up in the bindings in scope; one that is not
  declared there throws a ReferenceError. \<^verbatim>\<open>content\<close> and \<^verbatim>\<open>contentType\<close> are declared
  with \<^verbatim>\<open>const\<close> inside the try block, so they are bindings of that block only.
\<close>

datatype binding = ContentValue content | StringValue string

definition lookup_identifier :: "(string \<times> binding) list \<Rightarrow> string \<Rightarrow> js_error + binding" where
  "lookup_identifier scope name =
     (case map_of scope name of None \<Rightarrow> Inl (ReferenceError name) | Some b \<Rightarrow> Inr b)"

definition try_scope :: "content \<Rightarrow> string \<Rightarrow> (string \<times> binding) list" where
  "try_scope c contentType = [(''content'', ContentValue c), (''contentType'', StringValue contentType)]"

definition catch_scope :: "(string \<times> binding) list" where
  "catch_scope = []"

definition first_line :: "string \<Rightarrow> string" where
  \<comment> \<open>\<^verbatim>\<open>s.split('\n')[0]\<close>\<close>
  "first_line s = takeWhile (\<lambda>c. c \<noteq> CHR 0x0A) s"

definition fallback_record :: "string \<Rightarrow> string \<Rightarrow> string list \<Rightarrow> json" where
  "fallback_record t sm tags = JObj
     [(''title'', JStr t), (''category'', JStr ''Other''), (''summary'', JStr sm),
      (''tags'', JArr (map JStr tags))]"

definition fallbackResponses :: "(string \<times> binding) list \<Rightarrow> js_error + (string \<times> json) list" where
  \<comment> \<open>the object literal is built whole, entry by entry, before one entry is selected;
      a page has no \<^verbatim>\<open>split\<close>, so \<^verbatim>\<open>content?.split('\n')\<close> on it throws a TypeError\<close>
  "fallbackResponses scope =
     (case lookup_identifier scope ''content'' of
        Inl e \<Rightarrow> Inl e
      | Inr (StringValue s) \<Rightarrow> Inl TypeError
      | Inr (ContentValue c) \<Rightarrow>
          (case c of
             PageContent p \<Rightarrow> Inl TypeError
           | TextContent s \<Rightarrow>
               Inr [(''image'', fallback_record ''Saved Screenshot''
                        ''Screenshot saved successfully. AI analysis had an issue, but your content is safely stored.''
                        [''screenshot'', ''saved'']),
                    (''url'', fallback_record ''Saved Link''
                        ''Link saved successfully for later reference.'' [''link'', ''saved'']),
                    (''text'', fallback_record
                        (if take 60 (first_line s) = [] then ''Quick Note'' else take 60 (first_line s))
                        (if take 200 s = [] then ''Note saved successfully.'' else take 200 s)
                        [''note'', ''saved''])]))"

definition analyze_catch :: "(string \<times> binding) list \<Rightarrow> outcome" where
  "analyze_catch scope =
     (case fallbackResponses scope of
        Inl e \<Rightarrow> Uncaught e
      | Inr table \<Rightarrow>
          (case lookup_identifier scope ''contentType'' of
             Inl e \<Rightarrow> Uncaught e
           | Inr (ContentValue c) \<Rightarrow> Uncaught TypeError
           | Inr (StringValue contentType) \<Rightarrow>
               (case map_of table contentType of
                  Some r \<Rightarrow> Responded 200 r
                | None \<Rightarrow>
                    Responded 200 (fallback_record ''Saved Content'' ''Content saved successfully.'' [''saved'']))))"

definition post_analyze ::
  "(string \<Rightarrow> json option) \<Rightarrow> (string \<Rightarrow> content \<Rightarrow> js_error + string option) \<Rightarrow> content \<Rightarrow> string
     \<Rightarrow> outcome" where
  "post_analyze parse chat c contentType =
     (case analyze_try parse chat c contentType of
        Inr analysisResult \<Rightarrow> Responded 200 analysisResult
      | Inl e \<Rightarrow> analyze_catch catch_scope)"

section \<open>Source Resolver: \<^verbatim>\<open>POST /api/scrape\<close>\<close>









section \<open>Ingestion Orchestrator: \<^verbatim>\<open>POST /api/process-content\<close>\<close>

function split_space :: "string \<Rightarrow> string \<Rightarrow> string list" where
  \<comment> \<open>\<^verbatim>\<open>s.split(/\s+/)\<close>: the pieces between the runs of white space, the piece being read
      kept in reverse; a text without white space, the empty one too, is one piece\<close>
  "split_space piece [] = [rev piece]"
| "split_space piece (c # cs) =
     (if js_space c then rev piece # split_space [] (dropWhile js_space cs)
      else split_space (c # piece) cs)"
  by pat_completeness auto
termination
  by (relation "measure (\<lambda>(piece, s). length s)")
     (auto simp: less_Suc_eq_le length_dropWhile_le)

definition text_metadata :: "string \<Rightarrow> json" where
  \<comment> \<open>\<^verbatim>\<open>Math.ceil(words / 200)\<close> on a natural number is \<open>(words + 199) div 200\<close>\<close>
  "text_metadata c =
     (let words = length (split_space [] (trim c)) in
      JObj [(''word_count'', JNum (int words)),
            (''char_count'', JNum (int (length c))),
            (''estimated_read_time'', JNum (int (max 1 ((words + 199) div 200))))])"

text \<open>
  The specification's wording, for comparison: the words of a text are its maximal runs
  of characters that are not white space.
\<close>

function count_words :: "string \<Rightarrow> nat" where
  "count_words [] = 0"
| "count_words (c # cs) =
     (if js_space c then count_words cs
      else Suc (count_words (dropWhile (\<lambda>x. \<not> js_space x) cs)))"
  by pat_completeness auto
termination
  by (relation "measure length") (auto simp: less_Suc_eq_le length_dropWhile_le)

text \<open>
  The orchestrator reaches the upload, scrape and analyze endpoints over HTTP; each call
  gives the parsed JSON answer or throws. \<^verbatim>\<open>new URL(u)\<close> gives the host name and the
  protocol, or throws. The id and the timestamps of a new row are the store's choice.
\<close>

record pipeline =
  call_upload :: "json \<Rightarrow> js_error + json"
  call_scrape :: "json \<Rightarrow> js_error + json"
  call_analyze :: "json \<Rightarrow> js_error + json"
  new_URL :: "json option \<Rightarrow> (string \<times> string) option"
  new_id :: string

definition read_prop :: "json \<Rightarrow> string \<Rightarrow> js_error + json option" where
  \<comment> \<open>\<^verbatim>\<open>value.k\<close>: a TypeError on null\<close>
  "read_prop v k = (case v of JNull \<Rightarrow> Inl TypeError | _ \<Rightarrow> Inr (field v k))"

definition present :: "string \<Rightarrow> json option \<Rightarrow> (string \<times> json) list" where
  \<comment> \<open>a property whose value is undefined is left out of the JSON that is stored\<close>
  "present k v = (case v of None \<Rightarrow> [] | Some x \<Rightarrow> [(k, x)])"

record gathered =
  processedContent :: json
  imageUrl :: "json option"
  previewData :: "json option"
  contentMetadata :: json

definition gather :: "nat \<Rightarrow> pipeline \<Rightarrow> string \<Rightarrow> string \<Rightarrow> js_error + gathered" where
  "gather now pl c contentType =
     (if contentType = ''image'' then
        (case call_upload pl (JObj [(''imageData'', JStr c),
                                    (''fileName'', JStr (''screenshot-'' @ show_nat now @ ''.png''))]) of
           Inl e \<Rightarrow> Inl e
         | Inr uploadResult \<Rightarrow>
             (case read_prop uploadResult ''success'' of
                Inl e \<Rightarrow> Inl e
              | Inr success \<Rightarrow>
                  (case call_analyze pl (JObj [(''content'', JStr c), (''contentType'', JStr ''image'')]) of
                     Inl e \<Rightarrow> Inl e
                   | Inr processed \<Rightarrow>
                       Inr \<lparr>processedContent = processed,
                            imageUrl = (if truthy success then field uploadResult ''url'' else None),
                            previewData = None,
                            contentMetadata =
                              (if truthy success then
                                 JObj (present ''storage_path'' (field uploadResult ''path'') @
                                       [(''uploaded_at'', JNum (int now)),
                                        (''file_size'', JNum (int ((3 * length c + 2) div 4)))])
                               else JObj [])\<rparr>)))
      else if contentType = ''url'' then
        (case call_scrape pl (JObj [(''url'', JStr c)]) of
           Inl e \<Rightarrow> Inl e
         | Inr scrapedData \<Rightarrow>
             (case read_prop scrapedData ''url'' of
                Inl e \<Rightarrow> Inl e
              | Inr scrapedUrl \<Rightarrow>
                  (case call_analyze pl (JObj [(''content'', scrapedData), (''contentType'', JStr ''url'')]) of
                     Inl e \<Rightarrow> Inl e
                   | Inr processed \<Rightarrow>
                       (case new_URL pl scrapedUrl of
                          Some (hostname, protocol) \<Rightarrow>
                            Inr \<lparr>processedContent = processed,
                                 imageUrl = None,
                                 previewData = Some (JObj
                                   (present ''url'' scrapedUrl @
                                    [(''domain'', JStr hostname)] @
                                    present ''title'' (field scrapedData ''title'') @
                                    present ''description'' (field scrapedData ''description'') @
                                    [(''favicon'', JStr (''https://www.google.com/s2/favicons?domain='' @ hostname @ ''&sz=64''))])),
                                 contentMetadata = JObj [(''domain'', JStr hostname), (''protocol'', JStr protocol)]\<rparr>
                        | None \<Rightarrow>
                            Inr \<lparr>processedContent = processed,
                                 imageUrl = None,
                                 previewData = Some (JObj
                                   ([(''url'', JStr c)] @
                                    present ''title'' (field scrapedData ''title'') @
                                    present ''description'' (field scrapedData ''description''))),
                                 contentMetadata = JObj []\<rparr>))))
      else
        (case call_analyze pl (JObj [(''content'', JStr c), (''contentType'', JStr ''text'')]) of
           Inl e \<Rightarrow> Inl e
         | Inr processed \<Rightarrow>
             Inr \<lparr>processedContent = processed, imageUrl = None, previewData = None,
                  contentMetadata = text_metadata c\<rparr>))"

definition post_process_content ::
  "nat \<Rightarrow> pipeline \<Rightarrow> string \<Rightarrow> string \<Rightarrow> string \<Rightarrow> store \<Rightarrow> outcome \<times> store" where
  "post_process_content now pl c contentType userId st =
     (case gather now pl c contentType of
        Inl e \<Rightarrow> (Responded 500 (JObj [(''success'', JBool False), (''error'', JStr ''Failed to process content'')]), st)
      | Inr g \<Rightarrow>
          (case read_prop (processedContent g) ''title'' of
             Inl e \<Rightarrow>
               (Responded 500 (JObj [(''success'', JBool False), (''error'', JStr ''Failed to process content'')]), st)
           | Inr t \<Rightarrow>
               (case insert_item
                       \<lparr>item_id = new_id pl, user_id = userId, title = t,
                        content_type = Some (JStr contentType),
                        original_content = (if contentType = ''image'' then None else Some (JStr c)),
                        original_image_url = imageUrl g,
                        preview_data = previewData g,
                        content_metadata = contentMetadata g,
                        ai_summary = field (processedContent g) ''summary'',
                        ai_category = field (processedContent g) ''category'',
                        ai_tags = field (processedContent g) ''tags'',
                        is_completed = False, view_count = Some 0, last_viewed_at = None,
                        created_at = now, updated_at = now\<rparr> st of
                  (Inl e, st') \<Rightarrow>
                    (Responded 500 (JObj [(''success'', JBool False), (''error'', JStr ''Failed to save to database'')]), st')
                | (Inr data, st') \<Rightarrow> (Responded 200 (success_data (item_json data)), st'))))"

text \<open>The six protected routes on saved items, as registered.\<close>

datatype item_route =
    ListItems "string option"
  | ItemDetail string
  | ToggleCompletion "json option" "json option"
  | UpdateTitle "json option" "json option"
  | DeleteItem "json option"
  | ProcessContent pipeline string string

fun handler_of ::
  "(json \<Rightarrow> int \<Rightarrow> js_error + bool) \<Rightarrow> nat \<Rightarrow> item_route \<Rightarrow> string \<Rightarrow> store \<Rightarrow> outcome \<times> store" where
  "handler_of coerce now (ListItems category) = get_saved_items category"
| "handler_of coerce now (ItemDetail itemId) = get_item now itemId"
| "handler_of coerce now (ToggleCompletion itemId completed) = patch_toggle_completion now itemId completed"
| "handler_of coerce now (UpdateTitle itemId newTitle) = patch_update_title coerce now itemId newTitle"
| "handler_of coerce now (DeleteItem itemId) = delete_delete_item itemId"
| "handler_of coerce now (ProcessContent pl c contentType) = post_process_content now pl c contentType"

definition serve ::
  "(string \<Rightarrow> auth_reply) \<Rightarrow> (json \<Rightarrow> int \<Rightarrow> js_error + bool) \<Rightarrow> nat \<Rightarrow> string option \<Rightarrow> item_route
     \<Rightarrow> store \<Rightarrow> outcome \<times> store" where
  "serve getUser coerce now authHeader route st =
     protected getUser authHeader (handler_of coerce now route) st"

text \<open>
  A stand-in for \<^verbatim>\<open>JSON.parse\<close> in the closed examples below: it accepts one text and
  rejects every other.
\<close>

definition accepts_only :: "string \<Rightarrow> json \<Rightarrow> string \<Rightarrow> json option" where
  "accepts_only good v s = (if s = good then Some v else None)"

text \<open>Sample data for the closed examples below.\<close>

definition empty_store :: store where
  "empty_store = \<lparr>saved_items = [], feature_votes = [], user_votes = [], queries = []\<rparr>"

definition sample_pipeline :: pipeline where
  "sample_pipeline =
     \<lparr>call_upload = (\<lambda>request. Inl TypeError),
      call_scrape = (\<lambda>request. Inl TypeError),
      call_analyze = (\<lambda>request. Inr (JObj [(''title'', JStr ''Quick Note''), (''category'', JStr ''Other''),
                                                (''summary'', JStr ''Note saved successfully.''),
                                                (''tags'', JArr [JStr ''note'', JStr ''saved''])])),
      new_URL = (\<lambda>u. None),
      new_id = ''7d9f2c1e-0000-4000-8000-000000000001''\<rparr>"

definition sample_item :: item where
  "sample_item =
     \<lparr>item_id = ''7d9f2c1e-0000-4000-8000-0000000000aa'', user_id = ''owner@example.com'',
      title = Some (JStr ''Quick Note''), content_type = Some (JStr ''text''),
      original_content = Some (JStr ''buy milk''), original_image_url = None, preview_data = None,
      content_metadata = JObj [], ai_summary = Some (JStr ''Need to buy milk''),
      ai_category = Some (JStr ''Other''), ai_tags = Some (JArr [JStr ''note'']),
      is_completed = False, view_count = None, last_viewed_at = None,
      created_at = 1000, updated_at = 1000\<rparr>"

definition sample_store :: store where
  "sample_store = \<lparr>saved_items = [sample_item], feature_votes = [], user_votes = [], queries = []\<rparr>"

definition sample_getUser :: "string \<Rightarrow> auth_reply" where
  "sample_getUser token =
     (if token = ''token-of-owner'' then AuthUser ''owner@example.com''
      else if token = ''token-of-other'' then AuthUser ''other@example.com''
      else AuthRejected)"

definition nan_coercion :: "json \<Rightarrow> int \<Rightarrow> js_error + bool" where
  \<comment> \<open>a stand-in for the runtime's conversion in the closed examples: the value converts
      to NaN, which is greater than nothing\<close>
  "nan_coercion v n = Inr False"


text \<open>
  For stating the isolation property: the routes that mutate an existing item, and the
  \<^verbatim>\<open>itemId\<close> they carry.
\<close>

fun is_mutation :: "item_route \<Rightarrow> bool" where
  "is_mutation (ToggleCompletion itemId completed) = True"
| "is_mutation (UpdateTitle itemId newTitle) = True"
| "is_mutation (DeleteItem itemId) = True"
| "is_mutation route = False"

fun route_itemId :: "item_route \<Rightarrow> json option" where
  "route_itemId (ToggleCompletion itemId completed) = itemId"
| "route_itemId (UpdateTitle itemId newTitle) = itemId"
| "route_itemId (DeleteItem itemId) = itemId"
| "route_itemId route = None"

text \<open>
  For stating which requests reach the store: the input checks of the three mutating
  handlers (the delete handler has none), and the body of their 404.
\<close>

fun is_boolean :: "json option \<Rightarrow> bool" where
  "is_boolean (Some (JBool flag)) = True"
| "is_boolean v = False"

definition is_uuid :: "json option \<Rightarrow> bool" where
  "is_uuid v = (case js_String_opt v of Inl e \<Rightarrow> False | Inr s \<Rightarrow> uuidRegex_test s)"

fun title_accepted :: "json option \<Rightarrow> bool" where
  "title_accepted (Some (JStr t)) = (t \<noteq> [] \<and> length t \<le> 100)"
| "title_accepted v = False"

fun passes_checks :: "item_route \<Rightarrow> bool" where
  "passes_checks (ToggleCompletion itemId completed) = (truthy itemId \<and> is_boolean completed \<and> is_uuid itemId)"
| "passes_checks (UpdateTitle itemId newTitle) = (truthy itemId \<and> title_accepted newTitle \<and> is_uuid itemId)"
| "passes_checks (DeleteItem itemId) = True"
| "passes_checks route = False"

fun non_string_title :: "item_route \<Rightarrow> bool" where
  "non_string_title (UpdateTitle itemId (Some (JStr t))) = False"
| "non_string_title (UpdateTitle itemId newTitle) = True"
| "non_string_title route = False"

fun denial :: "item_route \<Rightarrow> json" where
  "denial (DeleteItem itemId) = JObj [(''error'', JStr ''Item not found or access denied'')]"
| "denial route = JObj
     [(''error'', JStr ''Item not found or access denied''),
      (''details'', JStr ''Either the item does not exist or you do not have permission to modify it'')]"

definition owner_scoped :: "string \<Rightarrow> bool \<Rightarrow> query \<Rightarrow> bool" where
  \<comment> \<open>a query on \<^verbatim>\<open>saved_items\<close> that, unless it is an insert, is filtered by the owner and,
      when an item is addressed, by an item id\<close>
  "owner_scoped userId by_item q \<longleftrightarrow>
     q_table q = ''saved_items'' \<and>
     (q_op q = Insert \<or>
      ((''user_id'', userId) \<in> set (q_filters q) \<and>
       (by_item = (\<exists>i. (''id'', i) \<in> set (q_filters q)))))"

fun addresses_item :: "item_route \<Rightarrow> bool" where
  "addresses_item (ListItems category) = False"
| "addresses_item route = True"

definition scoped_run :: "string \<Rightarrow> bool \<Rightarrow> store \<Rightarrow> outcome \<times> store \<Rightarrow> bool" where
  \<comment> \<open>what a handler run for \<open>userId\<close> did to the store: the queries it added to the log are
      all owner-scoped, and the rows of every other owner are as they were\<close>
  "scoped_run userId by_item st R \<longleftrightarrow>
     (\<exists>new. queries (snd R) = queries st @ new \<and> list_all (owner_scoped userId by_item) new)
     \<and> filter (\<lambda>r. user_id r \<noteq> userId) (saved_items (snd R))
         = filter (\<lambda>r. user_id r \<noteq> userId) (saved_items st)"


definition failing_model :: "string \<Rightarrow> content \<Rightarrow> js_error + string option" where
  "failing_model branch c = Inl (Error ''model unavailable'')"

definition instagram_page :: page where
  "instagram_page =
     \<lparr>page_title = Some ''Sunset over the bay tonight'',
      page_description = Some (replicate 301 (CHR ''x'')),
      page_url = Some ''https://www.instagram.com/p/Cabc123/'',
      page_author = None\<rparr>"


definition json_length :: "json option \<Rightarrow> nat" where
  \<comment> \<open>the \<^verbatim>\<open>length\<close> of a string or an array\<close>
  "json_length v = (case v of Some (JStr s) \<Rightarrow> length s | Some (JArr xs) \<Rightarrow> length xs | _ \<Rightarrow> 0)"

definition dark_mode_feature :: feature where
  "dark_mode_feature =
     \<lparr>feature_id = ''f-1'', feature_user_id = ''owner@example.com'',
      feature_title = ''Dark Mode Support'', feature_description = None,
      votes_count = 1, feature_status = ''suggested'', feature_category = ''other''\<rparr>"

definition feature_store :: "int \<Rightarrow> store" where
  \<comment> \<open>one feature with the given vote count, and no vote row\<close>
  "feature_store n =
     \<lparr>saved_items = [], feature_votes = [dark_mode_feature\<lparr>votes_count := n\<rparr>], user_votes = [],
      queries = []\<rparr>"

definition clamp :: "bool \<Rightarrow> int \<Rightarrow> int" where
  \<comment> \<open>for stating the count update: the manual path stores the new count floored at zero,
      the stored procedure stores it as it is\<close>
  "clamp manual n = (if manual then max 0 n else n)"

definition downvoted_store :: store where
  \<comment> \<open>the sample feature, created with count 1, after the downvotes of two owners, both
      counted by the stored procedure\<close>
  "downvoted_store =
     snd (post_features_vote False (Some ''f-1'') (Some ''downvote'') ''second@example.com''
       (snd (post_features_vote False (Some ''f-1'') (Some ''downvote'') ''first@example.com''
          (feature_store 1))))"

section \<open>Properties of the Response Normalizer\<close>

lemma dropWhile_neq_split:
  "a \<notin> set pre \<Longrightarrow> dropWhile (\<lambda>c. c \<noteq> a) (pre @ a # xs) = a # xs"
  by (induction pre) auto

lemma dropWhile_neq_Cons:
  "dropWhile (\<lambda>c. c \<noteq> a) xs = b # ys \<Longrightarrow> b = a \<and> xs = takeWhile (\<lambda>c. c \<noteq> a) xs @ a # ys"
  by (metis (mono_tags, lifting) hd_dropWhile list.distinct(1) list.sel(1) takeWhile_dropWhile_id)

lemma jsonMatch_intro:
  assumes "CHR ''{'' \<notin> set pre" "CHR ''}'' \<notin> set post"
  shows "jsonMatch (pre @ (CHR ''{'' # body @ ''}'') @ post) = Some (CHR ''{'' # body @ ''}'')"
proof -
  have 1: "dropWhile (\<lambda>c. c \<noteq> CHR ''{'') (pre @ (CHR ''{'' # body @ ''}'') @ post)
            = CHR ''{'' # (body @ ''}'' @ post)"
    using dropWhile_neq_split [OF assms(1), of "body @ ''}'' @ post"] by simp
  have 2: "dropWhile (\<lambda>c. c \<noteq> CHR ''}'') (rev post @ CHR ''}'' # rev body) = CHR ''}'' # rev body"
    using dropWhile_neq_split [of "CHR ''}''" "rev post" "rev body"] assms(2) by simp
  show ?thesis
    unfolding jsonMatch_def 1 by (simp add: 2)
qed

lemma jsonMatch_elim:
  assumes "jsonMatch s = Some m"
  shows "\<exists>pre body post. s = pre @ m @ post \<and> m = CHR ''{'' # body @ ''}''
           \<and> CHR ''{'' \<notin> set pre \<and> CHR ''}'' \<notin> set post"
proof -
  from assms obtain brace rest where d1: "dropWhile (\<lambda>c. c \<noteq> CHR ''{'') s = brace # rest"
    by (auto simp: jsonMatch_def split: list.splits)
  from assms d1 obtain b body' where d2: "dropWhile (\<lambda>c. c \<noteq> CHR ''}'') (rev rest) = b # body'"
    and m: "m = brace # rev (b # body')"
    by (auto simp: jsonMatch_def split: list.splits)
  let ?pre = "takeWhile (\<lambda>c. c \<noteq> CHR ''{'') s"
  let ?tl = "takeWhile (\<lambda>c. c \<noteq> CHR ''}'') (rev rest)"
  from dropWhile_neq_Cons [OF d1] have br: "brace = CHR ''{''" and s: "s = ?pre @ CHR ''{'' # rest"
    by auto
  from dropWhile_neq_Cons [OF d2] have b: "b = CHR ''}''" and r: "rev rest = ?tl @ CHR ''}'' # body'"
    by auto
  from r have rest: "rest = rev body' @ ''}'' @ rev ?tl"
    by (metis append_Cons append_Nil rev.simps(2) rev_append rev_rev_ident append_assoc)
  have "s = ?pre @ m @ rev ?tl" using s rest m br b by simp
  moreover have "m = CHR ''{'' # rev body' @ ''}''" using m br b by simp
  moreover have "CHR ''{'' \<notin> set ?pre" by (auto dest: set_takeWhileD)
  moreover have "CHR ''}'' \<notin> set (rev ?tl)" by (auto dest: set_takeWhileD)
  ultimately show ?thesis by blast
qed

lemma cleanJSONResponse_throws_iff:
  "isl (cleanJSONResponse parse response) \<longleftrightarrow>
     (response = None \<or> response = Some [] \<or>
      (\<exists>r. response = Some r \<and> parse (cleaned_text r) = None \<and>
           (\<forall>m. jsonMatch (cleaned_text r) = Some m \<longrightarrow> parse m = None)))"
  by (auto simp: cleanJSONResponse_def Let_def split: option.splits)

lemma cleanJSONResponse_returns:
  "cleanJSONResponse parse (Some r) = Inr v \<Longrightarrow>
     parse (cleaned_text r) = Some v \<or>
     (parse (cleaned_text r) = None \<and> (\<exists>m. jsonMatch (cleaned_text r) = Some m \<and> parse m = Some v))"
  by (auto simp: cleanJSONResponse_def Let_def split: option.splits if_splits)

text \<open>
  The fence pattern is six backticks: a fence of three is not removed, and the fenced
  answer is rescued only by the brace extraction.
\<close>

lemma triple_fences_survive:
  "cleaned_text ([backtick, backtick, backtick] @ ''{}'' @ [backtick, backtick, backtick])
     = [backtick, backtick, backtick] @ ''{}'' @ [backtick, backtick, backtick]
   \<and> jsonMatch ([backtick, backtick, backtick] @ ''{}'' @ [backtick, backtick, backtick]) = Some ''{}''"
  by (simp add: cleaned_text_def trim_def js_space_def backtick_def jsonMatch_def)

text \<open>
  Claim C4, as stated, fails: the fallback does not extract the first balanced
  \<^verbatim>\<open>{...}\<close> substring. On the answer \<^verbatim>\<open>ok: {} :}\<close> the first balanced substring is \<^verbatim>\<open>{}\<close>, which
  parses, but the normalizer extracts \<^verbatim>\<open>{} :}\<close>, which does not, and throws.
\<close>

theorem cleanJSONResponse_first_balanced_counterexample:
  "jsonMatch ''ok: {} :}'' = Some ''{} :}''
   \<and> first_balanced ''ok: {} :}'' = Some ''{}''
   \<and> cleanJSONResponse (accepts_only ''{}'' (JObj [])) (Some ''ok: {} :}'') = Inl could_not_parse"
  by (simp add: jsonMatch_def cleanJSONResponse_def cleaned_text_def trim_def js_space_def
      accepts_only_def backtick_def)

text \<open>
  Claim C4, amended: for every raw text, the normalizer parses the cleaned text; when that
  fails it extracts the text from the first opening brace to the last closing brace after
  it and parses that; it throws exactly when the input is null or empty or both parses
  fail (also when there is nothing to extract), and otherwise returns what the first
  successful parse gave. Being a function of the parser and the input, it is deterministic
  and has no effect.
\<close>

theorem cleanJSONResponse_normalizes:
  "(isl (cleanJSONResponse parse response) \<longleftrightarrow>
      (response = None \<or> response = Some [] \<or>
       (\<exists>r. response = Some r \<and> parse (cleaned_text r) = None \<and>
            (\<forall>m. jsonMatch (cleaned_text r) = Some m \<longrightarrow> parse m = None))))
   \<and> (\<forall>r v. cleanJSONResponse parse (Some r) = Inr v \<longrightarrow>
         parse (cleaned_text r) = Some v \<or>
         (parse (cleaned_text r) = None \<and>
          (\<exists>m. jsonMatch (cleaned_text r) = Some m \<and> parse m = Some v)))
   \<and> (\<forall>s m. jsonMatch s = Some m \<longleftrightarrow>
         (\<exists>pre body post. s = pre @ m @ post \<and> m = CHR ''{'' # body @ ''}''
            \<and> CHR ''{'' \<notin> set pre \<and> CHR ''}'' \<notin> set post))"
proof (intro conjI allI impI)
  show "isl (cleanJSONResponse parse response) \<longleftrightarrow>
      (response = None \<or> response = Some [] \<or>
       (\<exists>r. response = Some r \<and> parse (cleaned_text r) = None \<and>
            (\<forall>m. jsonMatch (cleaned_text r) = Some m \<longrightarrow> parse m = None)))"
    by (rule cleanJSONResponse_throws_iff)
next
  fix r v
  assume "cleanJSONResponse parse (Some r) = Inr v"
  then show "parse (cleaned_text r) = Some v \<or>
         (parse (cleaned_text r) = None \<and>
          (\<exists>m. jsonMatch (cleaned_text r) = Some m \<and> parse m = Some v))"
    by (rule cleanJSONResponse_returns)
next
  fix s m
  show "jsonMatch s = Some m \<longleftrightarrow>
         (\<exists>pre body post. s = pre @ m @ post \<and> m = CHR ''{'' # body @ ''}''
            \<and> CHR ''{'' \<notin> set pre \<and> CHR ''}'' \<notin> set post)"
    using jsonMatch_elim [of s m] jsonMatch_intro by blast
qed

text \<open>
  Witness for C4: a fenced answer whose cleaned text does not parse and whose span from
  the first to the last brace does.
\<close>

theorem cleanJSONResponse_normalizes_witness:
  "cleanJSONResponse (accepts_only ''{}'' (JObj [])) (Some ''json {} '') = Inr (JObj [])
   \<and> accepts_only ''{}'' (JObj []) (cleaned_text ''json {} '') = None
   \<and> (\<exists>m. jsonMatch (cleaned_text ''json {} '') = Some m \<and> accepts_only ''{}'' (JObj []) m = Some (JObj []))"
proof -
  have run: "cleanJSONResponse (accepts_only ''{}'' (JObj [])) (Some ''json {} '') = Inr (JObj [])"
    by (simp add: jsonMatch_def cleanJSONResponse_def cleaned_text_def trim_def js_space_def
        accepts_only_def backtick_def)
  have direct: "accepts_only ''{}'' (JObj []) (cleaned_text ''json {} '') = None"
    by (simp add: cleaned_text_def trim_def js_space_def accepts_only_def backtick_def)
  note split = cleanJSONResponse_normalizes [of "accepts_only ''{}'' (JObj [])" "Some ''json {} ''",
      THEN conjunct2, THEN conjunct1, rule_format, OF run]
  with direct have "\<exists>m. jsonMatch (cleaned_text ''json {} '') = Some m
      \<and> accepts_only ''{}'' (JObj []) m = Some (JObj [])"
    by simp
  with run direct show ?thesis by simp
qed

section \<open>Properties of the Ingestion Orchestrator\<close>

lemma count_words_word:
  "w \<noteq> [] \<Longrightarrow> \<forall>c\<in>set w. \<not> js_space c \<Longrightarrow>
     count_words (w @ s) = Suc (count_words (dropWhile (\<lambda>x. \<not> js_space x) s))"
proof (induction w)
  case Nil then show ?case by simp
next
  case (Cons a w)
  then show ?case by (cases w) (auto simp: dropWhile_append)
qed

lemma count_words_skip: "count_words (dropWhile js_space s) = count_words s"
  by (induction s) auto

lemma last_dropWhile: "dropWhile P xs \<noteq> [] \<Longrightarrow> last (dropWhile P xs) = last xs"
  by (induction xs) (auto split: if_splits)

lemma split_space_count:
  "\<forall>c\<in>set piece. \<not> js_space c \<Longrightarrow> s = [] \<or> \<not> js_space (last s) \<Longrightarrow>
   piece \<noteq> [] \<or> (s \<noteq> [] \<and> \<not> js_space (hd s)) \<Longrightarrow>
   length (split_space piece s) = count_words (rev piece @ s)"
proof (induction piece s rule: split_space.induct)
  case (1 piece)
  then show ?case using count_words_word [of "rev piece" "[]"] by simp
next
  case (2 piece c cs)
  show ?case
  proof (cases "js_space c")
    case True
    with 2 have p: "piece \<noteq> []" and cs: "cs \<noteq> []" "\<not> js_space (last cs)"
      by (auto split: if_splits)
    let ?r = "dropWhile js_space cs"
    from cs have r: "?r \<noteq> []"
      by (metis dropWhile_eq_Nil_conv last_in_set)
    then have "\<not> js_space (hd ?r)" "\<not> js_space (last ?r)"
      using hd_dropWhile [of js_space cs] last_dropWhile [of js_space cs] cs by auto
    with r 2(1) [OF True] have "length (split_space [] ?r) = count_words ?r" by simp
    moreover have "count_words (rev piece @ c # cs) = Suc (count_words cs)"
      using count_words_word [of "rev piece" "c # cs"] p 2(3) True by simp
    ultimately show ?thesis using True by (simp add: count_words_skip)
  next
    case False
    with 2 have "length (split_space (c # piece) cs) = count_words (rev (c # piece) @ cs)"
      by (auto split: if_splits)
    then show ?thesis using False by simp
  qed
qed

lemma trim_ends: "trim s \<noteq> [] \<Longrightarrow> \<not> js_space (hd (trim s)) \<and> \<not> js_space (last (trim s))"
proof -
  assume ne: "trim s \<noteq> []"
  let ?d = "dropWhile js_space s"
  let ?e = "dropWhile js_space (rev ?d)"
  from ne have e: "?e \<noteq> []" by (simp add: trim_def)
  then have d: "?d \<noteq> []" by (cases "?d") auto
  have "last (trim s) = hd ?e" using e by (simp add: trim_def last_rev)
  moreover have "\<not> js_space (hd ?e)" using e hd_dropWhile by blast
  moreover have "hd (trim s) = last ?e" using e by (simp add: trim_def hd_rev)
  moreover have "last ?e = hd ?d" using last_dropWhile [OF e] d by (simp add: last_rev)
  moreover have "\<not> js_space (hd ?d)" using d hd_dropWhile by blast
  ultimately show ?thesis by simp
qed

lemma words_of_trimmed:
  "length (split_space [] (trim c)) = (if trim c = [] then 1 else count_words (trim c))"
proof (cases "trim c = []")
  case True then show ?thesis by simp
next
  case False
  with trim_ends [OF False] split_space_count [of "[]" "trim c"] show ?thesis by simp
qed


lemma gather_text:
  "call_analyze pl (JObj [(''content'', JStr c), (''contentType'', JStr ''text'')]) = Inr processed \<Longrightarrow>
   gather now pl c ''text'' =
     Inr \<lparr>processedContent = processed, imageUrl = None, previewData = None,
          contentMetadata = text_metadata c\<rparr>"
  by (simp add: gather_def)

text \<open>
  Claim C9: for every text ingestion whose analysis call answers and whose row the store
  accepts, the persisted \<^verbatim>\<open>content_metadata\<close> holds the character count of the content, the
  read time \<open>max 1 (ceil (words / 200))\<close>, and as word count the number of
  white-space-delimited words of the trimmed content, except that a content with no word
  at all is stored with the count 1.
\<close>

theorem process_content_text_metadata:
  assumes analyzed: "call_analyze pl (JObj [(''content'', JStr c), (''contentType'', JStr ''text'')]) = Inr processed"
      and answer: "processed \<noteq> JNull"
      and fresh: "new_id pl \<notin> set (map item_id (saved_items st))"
  shows "\<exists>row. saved_items (snd (post_process_content now pl c ''text'' userId st)) = saved_items st @ [row]
           \<and> fst (post_process_content now pl c ''text'' userId st) = Responded 200 (success_data (item_json row))
           \<and> user_id row = userId
           \<and> content_metadata row = JObj
                [(''word_count'', JNum (int (if trim c = [] then 1 else count_words (trim c)))),
                 (''char_count'', JNum (int (length c))),
                 (''estimated_read_time'',
                  JNum (int (max 1 (((if trim c = [] then 1 else count_words (trim c)) + 199) div 200))))]"
proof -
  from answer have t: "read_prop processed ''title'' = Inr (field processed ''title'')"
    by (cases processed) (simp_all add: read_prop_def)
  show ?thesis
    using fresh
    by (simp add: post_process_content_def gather_text [OF analyzed] t insert_item_def logged_def
        text_metadata_def Let_def words_of_trimmed)
qed

text \<open>
  Witness for C9, at the blank note: the stored word count is 1, where the content has no
  word.
\<close>

theorem process_content_text_metadata_witness:
  "content_metadata (last (saved_items (snd (post_process_content 0 sample_pipeline [] ''text'' ''owner@example.com'' empty_store))))
     = JObj [(''word_count'', JNum 1), (''char_count'', JNum 0), (''estimated_read_time'', JNum 1)]
   \<and> count_words (trim []) = 0"
proof -
  have a: "call_analyze sample_pipeline (JObj [(''content'', JStr []), (''contentType'', JStr ''text'')])
        = Inr (JObj [(''title'', JStr ''Quick Note''), (''category'', JStr ''Other''),
                     (''summary'', JStr ''Note saved successfully.''),
                     (''tags'', JArr [JStr ''note'', JStr ''saved''])])"
    by (simp add: sample_pipeline_def)
  have f: "new_id sample_pipeline \<notin> set (map item_id (saved_items empty_store))"
    by (simp add: empty_store_def)
  from process_content_text_metadata [OF a _ f, of 0 "''owner@example.com''"]
  obtain row where
    "saved_items (snd (post_process_content 0 sample_pipeline [] ''text'' ''owner@example.com'' empty_store))
       = saved_items empty_store @ [row]"
    and "content_metadata row = JObj
                [(''word_count'', JNum (int (if trim [] = [] then 1 else count_words (trim []))))
                 , (''char_count'', JNum (int (length ([]::string)))),
                 (''estimated_read_time'',
                  JNum (int (max 1 (((if trim [] = [] then 1 else count_words (trim [])) + 199) div 200))))]"
    by auto
  then show ?thesis by (simp add: trim_def)
qed

section \<open>Properties of the protected item endpoints\<close>

lemma item_matches_id_owner [simp]:
  "item_matches [(''id'', i), (''user_id'', u)] = (\<lambda>r. item_id r = i \<and> user_id r = u)"
  by (rule ext) (simp add: item_matches_def)

lemma single_eq_Inr: "single rows = Inr r \<longleftrightarrow> rows = [r]"
  by (auto simp: single_def split: list.splits)

lemma filter_map_same:
  "(\<And>r. P (g r) = P r) \<Longrightarrow> filter P (map (\<lambda>r. if P r then g r else r) xs) = map g (filter P xs)"
  by (induction xs) auto

lemma filter_map_other:
  "(\<And>r. Q (g r) = Q r) \<Longrightarrow> (\<And>r. P r \<Longrightarrow> \<not> Q r) \<Longrightarrow>
   filter Q (map (\<lambda>r. if P r then g r else r) xs) = filter Q xs"
  by (induction xs) auto

text \<open>
  Claim C10: for every successful \<^verbatim>\<open>GET /api/item/:itemId\<close>, the body is
  \<^verbatim>\<open>{success: true, data}\<close> where \<^verbatim>\<open>data\<close> carries every column of the caller's row as it was
  read, before the view-count write of the same request (so its \<^verbatim>\<open>view_count\<close> and
  \<^verbatim>\<open>last_viewed_at\<close> are the old ones, \<^verbatim>\<open>null\<close> when the row had none); afterwards the stored
  count of that row is the fetched count plus one, a missing count read as zero, and no
  other row has changed.
\<close>

theorem get_item_returns_row_as_read:
  assumes ok: "fst (get_item now itemId userId st) = Responded 200 body"
  shows "\<exists>data.
           filter (\<lambda>r. item_id r = itemId \<and> user_id r = userId) (saved_items st) = [data]
         \<and> body = JObj
               [(''success'', JBool True),
                (''data'', JObj
                   [(''id'', JStr (item_id data)),
                    (''user_id'', JStr (user_id data)),
                    (''title'', (case title data of None \<Rightarrow> JNull | Some x \<Rightarrow> x)),
                    (''content_type'', (case content_type data of None \<Rightarrow> JNull | Some x \<Rightarrow> x)),
                    (''original_content'', (case original_content data of None \<Rightarrow> JNull | Some x \<Rightarrow> x)),
                    (''original_image_url'', (case original_image_url data of None \<Rightarrow> JNull | Some x \<Rightarrow> x)),
                    (''preview_data'', (case preview_data data of None \<Rightarrow> JNull | Some x \<Rightarrow> x)),
                    (''content_metadata'', content_metadata data),
                    (''ai_summary'', (case ai_summary data of None \<Rightarrow> JNull | Some x \<Rightarrow> x)),
                    (''ai_category'', (case ai_category data of None \<Rightarrow> JNull | Some x \<Rightarrow> x)),
                    (''ai_tags'', (case ai_tags data of None \<Rightarrow> JNull | Some x \<Rightarrow> x)),
                    (''is_completed'', JBool (is_completed data)),
                    (''view_count'', (case view_count data of None \<Rightarrow> JNull | Some n \<Rightarrow> JNum n)),
                    (''last_viewed_at'', (case last_viewed_at data of None \<Rightarrow> JNull | Some t \<Rightarrow> JNum (int t))),
                    (''created_at'', JNum (int (created_at data))),
                    (''updated_at'', JNum (int (updated_at data)))])]
         \<and> filter (\<lambda>r. item_id r = itemId \<and> user_id r = userId) (saved_items (snd (get_item now itemId userId st)))
             = [data\<lparr>view_count := Some ((case view_count data of None \<Rightarrow> 0 | Some n \<Rightarrow> n) + 1),
                     last_viewed_at := Some now\<rparr>]
         \<and> filter (\<lambda>r. \<not> (item_id r = itemId \<and> user_id r = userId)) (saved_items (snd (get_item now itemId userId st)))
             = filter (\<lambda>r. \<not> (item_id r = itemId \<and> user_id r = userId)) (saved_items st)"
proof -
  let ?P = "\<lambda>r. item_id r = itemId \<and> user_id r = userId"
  from ok obtain data where d: "filter ?P (saved_items st) = [data]"
    by (auto simp: get_item_def select_items_def single_def split: list.splits)
  let ?g = "\<lambda>r. r\<lparr>view_count := Some ((case view_count data of None \<Rightarrow> 0 | Some n \<Rightarrow> if n = 0 then 0 else n) + 1),
                   last_viewed_at := Some now\<rparr>"
  have vc: "(case view_count data of None \<Rightarrow> 0 | Some n \<Rightarrow> if n = 0 then 0 else n)
          = (case view_count data of None \<Rightarrow> (0::int) | Some n \<Rightarrow> n)"
    by (simp split: option.splits)
  have res: "get_item now itemId userId st =
      (Responded 200 (success_data (item_json data)),
       logged ''saved_items'' Update [(''id'', itemId), (''user_id'', userId)]
         ((logged ''saved_items'' Select [(''id'', itemId), (''user_id'', userId)] st)
            \<lparr>saved_items := map (\<lambda>r. if ?P r then ?g r else r) (saved_items st)\<rparr>))"
    using d by (simp add: get_item_def select_items_def update_items_def single_def logged_def)
  have 1: "filter ?P (map (\<lambda>r. if ?P r then ?g r else r) (saved_items st)) = map ?g (filter ?P (saved_items st))"
    by (rule filter_map_same) simp
  have 2: "filter (\<lambda>r. \<not> ?P r) (map (\<lambda>r. if ?P r then ?g r else r) (saved_items st))
         = filter (\<lambda>r. \<not> ?P r) (saved_items st)"
    by (rule filter_map_other) simp_all
  from ok res have "body = success_data (item_json data)" by simp
  then have b: "body = JObj
               [(''success'', JBool True),
                (''data'', JObj
                   [(''id'', JStr (item_id data)),
                    (''user_id'', JStr (user_id data)),
                    (''title'', (case title data of None \<Rightarrow> JNull | Some x \<Rightarrow> x)),
                    (''content_type'', (case content_type data of None \<Rightarrow> JNull | Some x \<Rightarrow> x)),
                    (''original_content'', (case original_content data of None \<Rightarrow> JNull | Some x \<Rightarrow> x)),
                    (''original_image_url'', (case original_image_url data of None \<Rightarrow> JNull | Some x \<Rightarrow> x)),
                    (''preview_data'', (case preview_data data of None \<Rightarrow> JNull | Some x \<Rightarrow> x)),
                    (''content_metadata'', content_metadata data),
                    (''ai_summary'', (case ai_summary data of None \<Rightarrow> JNull | Some x \<Rightarrow> x)),
                    (''ai_category'', (case ai_category data of None \<Rightarrow> JNull | Some x \<Rightarrow> x)),
                    (''ai_tags'', (case ai_tags data of None \<Rightarrow> JNull | Some x \<Rightarrow> x)),
                    (''is_completed'', JBool (is_completed data)),
                    (''view_count'', (case view_count data of None \<Rightarrow> JNull | Some n \<Rightarrow> JNum n)),
                    (''last_viewed_at'', (case last_viewed_at data of None \<Rightarrow> JNull | Some t \<Rightarrow> JNum (int t))),
                    (''created_at'', JNum (int (created_at data))),
                    (''updated_at'', JNum (int (updated_at data)))])]"
    by (simp add: success_data_def item_json_def opt_json_def)
  have s: "saved_items (snd (get_item now itemId userId st)) = map (\<lambda>r. if ?P r then ?g r else r) (saved_items st)"
    by (simp add: res logged_def)
  have 3: "filter ?P (saved_items (snd (get_item now itemId userId st)))
         = [data\<lparr>view_count := Some ((case view_count data of None \<Rightarrow> 0 | Some n \<Rightarrow> n) + 1),
                 last_viewed_at := Some now\<rparr>]"
    using 1 d vc by (simp add: s)
  have 4: "filter (\<lambda>r. \<not> ?P r) (saved_items (snd (get_item now itemId userId st)))
         = filter (\<lambda>r. \<not> ?P r) (saved_items st)"
    using 2 by (simp add: s)
  from d b 3 4 show ?thesis by blast
qed

text \<open>
  Witness for C10: a first view of a row whose count is missing answers with the row as
  it was, its \<^verbatim>\<open>view_count\<close> and \<^verbatim>\<open>last_viewed_at\<close> being \<^verbatim>\<open>null\<close>, and stores the count 1.
\<close>

theorem get_item_returns_row_as_read_witness:
  "fst (get_item 2000 ''7d9f2c1e-0000-4000-8000-0000000000aa'' ''owner@example.com'' sample_store)
     = Responded 200 (JObj
         [(''success'', JBool True),
          (''data'', JObj
             [(''id'', JStr ''7d9f2c1e-0000-4000-8000-0000000000aa''),
              (''user_id'', JStr ''owner@example.com''),
              (''title'', JStr ''Quick Note''),
              (''content_type'', JStr ''text''),
              (''original_content'', JStr ''buy milk''),
              (''original_image_url'', JNull),
              (''preview_data'', JNull),
              (''content_metadata'', JObj []),
              (''ai_summary'', JStr ''Need to buy milk''),
              (''ai_category'', JStr ''Other''),
              (''ai_tags'', JArr [JStr ''note'']),
              (''is_completed'', JBool False),
              (''view_count'', JNull),
              (''last_viewed_at'', JNull),
              (''created_at'', JNum 1000),
              (''updated_at'', JNum 1000)])])
   \<and> saved_items (snd (get_item 2000 ''7d9f2c1e-0000-4000-8000-0000000000aa'' ''owner@example.com'' sample_store))
     = [sample_item\<lparr>view_count := Some 1, last_viewed_at := Some 2000\<rparr>]"
proof -
  let ?id = "''7d9f2c1e-0000-4000-8000-0000000000aa''"
  let ?run = "get_item 2000 ?id ''owner@example.com'' sample_store"
  obtain body where run: "fst ?run = Responded 200 body"
    by (simp add: get_item_def select_items_def update_items_def single_def logged_def
        sample_store_def sample_item_def)
  from get_item_returns_row_as_read [OF run]
  obtain data where
    d: "filter (\<lambda>r. item_id r = ?id \<and> user_id r = ''owner@example.com'') (saved_items sample_store) = [data]"
    and b: "body = JObj
               [(''success'', JBool True),
                (''data'', JObj
                   [(''id'', JStr (item_id data)),
                    (''user_id'', JStr (user_id data)),
                    (''title'', (case title data of None \<Rightarrow> JNull | Some x \<Rightarrow> x)),
                    (''content_type'', (case content_type data of None \<Rightarrow> JNull | Some x \<Rightarrow> x)),
                    (''original_content'', (case original_content data of None \<Rightarrow> JNull | Some x \<Rightarrow> x)),
                    (''original_image_url'', (case original_image_url data of None \<Rightarrow> JNull | Some x \<Rightarrow> x)),
                    (''preview_data'', (case preview_data data of None \<Rightarrow> JNull | Some x \<Rightarrow> x)),
                    (''content_metadata'', content_metadata data),
                    (''ai_summary'', (case ai_summary data of None \<Rightarrow> JNull | Some x \<Rightarrow> x)),
                    (''ai_category'', (case ai_category data of None \<Rightarrow> JNull | Some x \<Rightarrow> x)),
                    (''ai_tags'', (case ai_tags data of None \<Rightarrow> JNull | Some x \<Rightarrow> x)),
                    (''is_completed'', JBool (is_completed data)),
                    (''view_count'', (case view_count data of None \<Rightarrow> JNull | Some n \<Rightarrow> JNum n)),
                    (''last_viewed_at'', (case last_viewed_at data of None \<Rightarrow> JNull | Some t \<Rightarrow> JNum (int t))),
                    (''created_at'', JNum (int (created_at data))),
                    (''updated_at'', JNum (int (updated_at data)))])]"
    and u: "filter (\<lambda>r. item_id r = ?id \<and> user_id r = ''owner@example.com'') (saved_items (snd ?run))
         = [data\<lparr>view_count := Some ((case view_count data of None \<Rightarrow> 0 | Some n \<Rightarrow> n) + 1),
                 last_viewed_at := Some 2000\<rparr>]"
    and o: "filter (\<lambda>r. \<not> (item_id r = ?id \<and> user_id r = ''owner@example.com'')) (saved_items (snd ?run))
         = filter (\<lambda>r. \<not> (item_id r = ?id \<and> user_id r = ''owner@example.com'')) (saved_items sample_store)"
    by blast
  from d have data: "data = sample_item"
    by (simp add: sample_store_def sample_item_def)
  have all: "saved_items (snd ?run) = [sample_item\<lparr>view_count := Some 1, last_viewed_at := Some 2000\<rparr>]"
    by (simp add: get_item_def select_items_def update_items_def single_def logged_def
        sample_store_def sample_item_def)
  from run b all show ?thesis
    unfolding data by (simp add: sample_item_def)
qed

lemma toggle_invalid:
  "\<not> (truthy itemId \<and> (\<exists>flag. completed = Some (JBool flag))) \<Longrightarrow>
   patch_toggle_completion now itemId completed userId st =
     (Responded 400 (error_only ''Invalid request: itemId and completed (boolean) are required''), st)"
  by (cases itemId; cases completed)
     (auto simp: patch_toggle_completion_def split: json.splits)

lemma toggle_valid:
  "truthy (Some v) \<Longrightarrow>
   patch_toggle_completion now (Some v) (Some (JBool flag)) userId st =
     (case js_String v of
        Inl e \<Rightarrow>
          (Responded 500 (JObj [(''error'', JStr ''Failed to toggle completion''),
                                (''message'', JStr primitive_message)]), st)
      | Inr itemIdString \<Rightarrow>
          if \<not> uuidRegex_test itemIdString then
            (Responded 400 (JObj
               [(''error'', JStr ''Invalid itemId format: must be a valid UUID''),
                (''received'', JStr itemIdString),
                (''hint'', JStr ''Expected format: xxxxxxxx-xxxx-xxxx-xxxx-xxxxxxxxxxxx'')]), st)
          else
            (case update_items (\<lambda>r. r\<lparr>is_completed := flag, updated_at := now\<rparr>)
                    [(''id'', itemIdString), (''user_id'', userId)] st of
               (rows, st') \<Rightarrow>
                 (case single rows of
                    Inl PGRST116 \<Rightarrow> (Responded 404 not_found_or_denied, st')
                  | Inl (DbError code msg) \<Rightarrow> (Responded 500 (database_error code msg), st')
                  | Inr row \<Rightarrow> (Responded 200 (success_data (item_json row)), st'))))"
  by (simp add: patch_toggle_completion_def)

lemma undefined_is_no_uuid: "\<not> uuidRegex_test ''undefined''"
  by code_simp

lemma logged_simps [simp]:
  "saved_items (logged t op' fs st) = saved_items st"
  "queries (logged t op' fs st) = queries st @ [\<lparr>q_table = t, q_op = op', q_filters = fs\<rparr>]"
  by (simp_all add: logged_def)

lemma toggle_malformed:
  assumes bad: "\<not> (\<exists>s. js_String_opt itemId = Inr s \<and> uuidRegex_test s)"
  shows "patch_toggle_completion now itemId completed userId st =
           ((if truthy itemId \<and> (\<exists>flag. completed = Some (JBool flag)) then
              (case js_String_opt itemId of
                 Inr s \<Rightarrow> Responded 400 (JObj
                      [(''error'', JStr ''Invalid itemId format: must be a valid UUID''),
                       (''received'', JStr s),
                       (''hint'', JStr ''Expected format: xxxxxxxx-xxxx-xxxx-xxxx-xxxxxxxxxxxx'')])
               | Inl e \<Rightarrow> Responded 500 (JObj [(''error'', JStr ''Failed to toggle completion''),
                                       (''message'', JStr primitive_message)]))
            else Responded 400 (error_only ''Invalid request: itemId and completed (boolean) are required'')), st)"
proof (cases "truthy itemId \<and> (\<exists>flag. completed = Some (JBool flag))")
  case False
  show ?thesis unfolding toggle_invalid [OF False] if_not_P [OF False] by (rule refl)
next
  case True
  then obtain v flag where v: "itemId = Some v" "truthy (Some v)" "completed = Some (JBool flag)"
    by (cases itemId) auto
  from bad v(1) have "\<And>s. js_String v = Inr s \<Longrightarrow> \<not> uuidRegex_test s"
    by (simp add: js_String_opt_def)
  then show ?thesis
    unfolding if_P [OF True] unfolding v(1,3) toggle_valid [OF v(2)]
    by (auto simp: js_String_opt_def split: sum.splits)
qed

lemma toggle_query:
  assumes q: "queries (snd (patch_toggle_completion now itemId completed userId st)) \<noteq> queries st"
  shows "\<exists>s. js_String_opt itemId = Inr s \<and> uuidRegex_test s
           \<and> queries (snd (patch_toggle_completion now itemId completed userId st)) =
               queries st @ [\<lparr>q_table = ''saved_items'', q_op = Update,
                              q_filters = [(''id'', s), (''user_id'', userId)]\<rparr>]"
proof (cases "truthy itemId \<and> (\<exists>flag. completed = Some (JBool flag))")
  case False
  with q show ?thesis by (simp add: toggle_invalid)
next
  case True
  then obtain v flag where v: "itemId = Some v" "truthy (Some v)" "completed = Some (JBool flag)"
    by (cases itemId) auto
  from q show ?thesis
    unfolding v(1,3) toggle_valid [OF v(2)]
    by (auto simp: js_String_opt_def update_items_def split: sum.splits db_error.splits if_splits)
qed

lemma not_a_uuid: "\<not> uuidRegex_test ''not-a-uuid''"
  by code_simp

text \<open>
  Claim C7, as stated, fails: a request whose \<^verbatim>\<open>itemId\<close> is not in the identifier format is
  not always answered with the format hint. With \<^verbatim>\<open>itemId = "not-a-uuid"\<close> and a \<^verbatim>\<open>completed\<close>
  that is not a boolean, the answer is the 400 of the first check, whose message names the
  required fields and carries no hint.
\<close>

theorem toggle_completion_hint_counterexample:
  "\<not> uuidRegex_test ''not-a-uuid''
   \<and> js_String_opt (Some (JStr ''not-a-uuid'')) = Inr ''not-a-uuid''
   \<and> patch_toggle_completion 2000 (Some (JStr ''not-a-uuid'')) (Some (JStr ''true''))
         ''owner@example.com'' sample_store
       = (Responded 400 (error_only ''Invalid request: itemId and completed (boolean) are required''),
          sample_store)"
  using not_a_uuid by (simp add: js_String_opt_def patch_toggle_completion_def)

text \<open>
  Claim C7, amended: for every authenticated \<^verbatim>\<open>PATCH /api/toggle-completion\<close> request whose
  \<^verbatim>\<open>itemId\<close> has no string conversion in the identifier format, the handler issues no store
  query and leaves the store as it is; it answers 400 with the format hint when \<^verbatim>\<open>itemId\<close>
  is truthy and \<^verbatim>\<open>completed\<close> is a boolean (500 when the conversion itself throws), and
  otherwise 400 with the message that names the required fields. A query is issued only
  for an \<^verbatim>\<open>itemId\<close> in the format: it is the one update, filtered by that id and the caller.
\<close>

theorem toggle_completion_rejects_malformed_id:
  "(\<not> (\<exists>s. js_String_opt itemId = Inr s \<and> uuidRegex_test s) \<longrightarrow>
      patch_toggle_completion now itemId completed userId st =
        ((if truthy itemId \<and> (\<exists>flag. completed = Some (JBool flag)) then
            (case js_String_opt itemId of
               Inr s \<Rightarrow> Responded 400 (JObj
                    [(''error'', JStr ''Invalid itemId format: must be a valid UUID''),
                     (''received'', JStr s),
                     (''hint'', JStr ''Expected format: xxxxxxxx-xxxx-xxxx-xxxx-xxxxxxxxxxxx'')])
             | Inl e \<Rightarrow> Responded 500 (JObj [(''error'', JStr ''Failed to toggle completion''),
                                     (''message'', JStr primitive_message)]))
          else Responded 400 (error_only ''Invalid request: itemId and completed (boolean) are required'')),
         st))
   \<and> (queries (snd (patch_toggle_completion now itemId completed userId st)) \<noteq> queries st \<longrightarrow>
        (\<exists>s. js_String_opt itemId = Inr s \<and> uuidRegex_test s
           \<and> queries (snd (patch_toggle_completion now itemId completed userId st)) =
               queries st @ [\<lparr>q_table = ''saved_items'', q_op = Update,
                              q_filters = [(''id'', s), (''user_id'', userId)]\<rparr>]))"
  using toggle_malformed toggle_query by blast

text \<open>
  Witness for C7: \<^verbatim>\<open>itemId = "not-a-uuid"\<close> with a boolean \<^verbatim>\<open>completed\<close> is answered 400 with
  the hint, the store untouched.
\<close>

theorem toggle_completion_rejects_malformed_id_witness:
  "patch_toggle_completion 2000 (Some (JStr ''not-a-uuid'')) (Some (JBool True))
         ''owner@example.com'' sample_store
     = (Responded 400 (JObj
                    [(''error'', JStr ''Invalid itemId format: must be a valid UUID''),
                     (''received'', JStr ''not-a-uuid''),
                     (''hint'', JStr ''Expected format: xxxxxxxx-xxxx-xxxx-xxxx-xxxxxxxxxxxx'')]),
        sample_store)"
proof -
  have bad: "\<not> (\<exists>s. js_String_opt (Some (JStr ''not-a-uuid'')) = Inr s \<and> uuidRegex_test s)"
    using not_a_uuid by (simp add: js_String_opt_def)
  have c: "truthy (Some (JStr ''not-a-uuid'')) \<and> (\<exists>flag. Some (JBool True) = Some (JBool flag))"
    by auto
  from toggle_completion_rejects_malformed_id
         [of "Some (JStr ''not-a-uuid'')" 2000 "Some (JBool True)" "''owner@example.com''" sample_store,
          THEN conjunct1, rule_format, OF bad]
  show ?thesis unfolding if_P [OF c] by (simp add: js_String_opt_def)
qed

lemma scoped_run_same [simp]: "scoped_run userId by_item st (resp, st)"
  by (simp add: scoped_run_def)

lemma others_update:
  "(\<And>r. user_id (g r) = user_id r) \<Longrightarrow>
   filter (\<lambda>r. user_id r \<noteq> u) (map (\<lambda>r. if item_id r = i \<and> user_id r = u then g r else r) xs)
     = filter (\<lambda>r. user_id r \<noteq> u) xs"
  by (induction xs) auto

lemma others_delete:
  "filter (\<lambda>r. (item_id r = i \<longrightarrow> user_id r \<noteq> u) \<and> user_id r \<noteq> u) xs
     = filter (\<lambda>r. user_id r \<noteq> u) xs"
  by (rule filter_cong) auto

lemma scoped_toggle: "scoped_run userId True st (patch_toggle_completion now itemId completed userId st)"
proof (cases "truthy itemId \<and> (\<exists>flag. completed = Some (JBool flag))")
  case False
  then show ?thesis by (simp add: toggle_invalid)
next
  case True
  then obtain v flag where v: "itemId = Some v" "truthy (Some v)" "completed = Some (JBool flag)"
    by (cases itemId) auto
  show ?thesis
    unfolding v(1,3) toggle_valid [OF v(2)]
    by (auto simp: update_items_def scoped_run_def owner_scoped_def others_update
        split: sum.splits db_error.splits)
qed

lemma update_title_shape:
  "(\<exists>resp. patch_update_title coerce now itemId newTitle userId st = (resp, st))
   \<or> (\<exists>t s. newTitle = Some (JStr t) \<and> js_String_opt itemId = Inr s
        \<and> patch_update_title coerce now itemId newTitle userId st =
           (case update_items (\<lambda>r. r\<lparr>title := Some (JStr (take 100 (trim t))), updated_at := now\<rparr>)
                   [(''id'', s), (''user_id'', userId)] st of
              (rows, st') \<Rightarrow>
                (case single rows of
                   Inl PGRST116 \<Rightarrow> (Responded 404 not_found_or_denied, st')
                 | Inl (DbError code msg) \<Rightarrow> (Responded 500 (database_error code msg), st')
                 | Inr row \<Rightarrow> (Responded 200 (success_data (item_json row)), st'))))"
  by (auto simp: patch_update_title_def js_String_opt_def
      split: option.splits json.splits sum.splits bool.splits)

lemma scoped_update_path:
  assumes "\<And>r. user_id (g r) = user_id r"
  shows "scoped_run userId True st
     (case update_items g [(''id'', s), (''user_id'', userId)] st of
        (rows, st') \<Rightarrow>
          (case single rows of
             Inl PGRST116 \<Rightarrow> (a, st')
           | Inl (DbError code msg) \<Rightarrow> (b code msg, st')
           | Inr row \<Rightarrow> (c row, st')))"
  using assms
  by (auto simp: update_items_def scoped_run_def owner_scoped_def others_update
      split: sum.splits db_error.splits)

lemma scoped_update_title:
  "scoped_run userId True st (patch_update_title coerce now itemId newTitle userId st)"
proof -
  from update_title_shape [of coerce now itemId newTitle userId st]
  consider resp where "patch_update_title coerce now itemId newTitle userId st = (resp, st)"
    | t s where "patch_update_title coerce now itemId newTitle userId st =
           (case update_items (\<lambda>r. r\<lparr>title := Some (JStr (take 100 (trim t))), updated_at := now\<rparr>)
                   [(''id'', s), (''user_id'', userId)] st of
              (rows, st') \<Rightarrow>
                (case single rows of
                   Inl PGRST116 \<Rightarrow> (Responded 404 not_found_or_denied, st')
                 | Inl (DbError code msg) \<Rightarrow> (Responded 500 (database_error code msg), st')
                 | Inr row \<Rightarrow> (Responded 200 (success_data (item_json row)), st')))"
    by blast
  then show ?thesis
  proof cases
    case 1
    then show ?thesis by simp
  next
    case 2
    show ?thesis unfolding 2 by (rule scoped_update_path) simp
  qed
qed

lemma scoped_delete: "scoped_run userId True st (delete_delete_item itemId userId st)"
  by (auto simp: delete_delete_item_def delete_items_def scoped_run_def owner_scoped_def others_delete
      split: option.splits json.splits sum.splits db_error.splits)

lemma scoped_get_item: "scoped_run userId True st (get_item now itemId userId st)"
  by (auto simp: get_item_def select_items_def update_items_def scoped_run_def owner_scoped_def others_update
      split: option.splits json.splits sum.splits db_error.splits)

lemma scoped_list: "scoped_run userId False st (get_saved_items category userId st)"
  by (auto simp: get_saved_items_def select_items_def scoped_run_def owner_scoped_def Let_def
      split: option.splits)

lemma scoped_process: "scoped_run userId True st (post_process_content now pl c contentType userId st)"
  by (auto simp: post_process_content_def insert_item_def scoped_run_def owner_scoped_def
      split: sum.splits)


lemma scoped_handler:
  "scoped_run userId (addresses_item route) st (handler_of coerce now route userId st)"
  by (cases route)
     (simp_all add: scoped_toggle scoped_update_title scoped_delete scoped_get_item scoped_list scoped_process)

lemma no_match_map:
  "\<forall>r\<in>set xs. item_id r = s \<longrightarrow> user_id r \<noteq> u \<Longrightarrow>
   map (\<lambda>r. if item_id r = s \<and> user_id r = u then g r else r) xs = xs"
  by (induction xs) auto

lemma no_match_filter:
  "\<forall>r\<in>set xs. item_id r = s \<longrightarrow> user_id r \<noteq> u \<Longrightarrow>
   filter (\<lambda>r. item_id r = s \<and> user_id r = u) xs = []"
  by (induction xs) auto

lemma no_match_filter_not:
  "\<forall>r\<in>set xs. item_id r = s \<longrightarrow> user_id r \<noteq> u \<Longrightarrow>
   filter (\<lambda>r. item_id r = s \<longrightarrow> user_id r \<noteq> u) xs = xs"
  by (induction xs) auto

lemma single_Nil [simp]: "single [] = Inl PGRST116"
  by (simp add: single_def)

lemma is_boolean_iff: "is_boolean v \<longleftrightarrow> (\<exists>flag. v = Some (JBool flag))"
  by (cases v rule: is_boolean.cases) auto

lemma foreign_toggle:
  assumes "js_String_opt itemId = Inr s" "\<forall>r\<in>set (saved_items st). item_id r = s \<longrightarrow> user_id r \<noteq> userId"
  shows "saved_items (snd (patch_toggle_completion now itemId completed userId st)) = saved_items st
       \<and> (truthy itemId \<and> is_boolean completed \<and> is_uuid itemId \<longrightarrow>
            fst (patch_toggle_completion now itemId completed userId st) = Responded 404 not_found_or_denied)
       \<and> (\<not> (truthy itemId \<and> is_boolean completed \<and> is_uuid itemId) \<longrightarrow>
            snd (patch_toggle_completion now itemId completed userId st) = st
            \<and> (\<exists>body. fst (patch_toggle_completion now itemId completed userId st) = Responded 400 body))"
proof (cases "truthy itemId \<and> (\<exists>flag. completed = Some (JBool flag))")
  case False
  then have "\<not> (truthy itemId \<and> is_boolean completed \<and> is_uuid itemId)"
    by (auto simp: is_boolean_iff)
  with False show ?thesis by (simp add: toggle_invalid)
next
  case True
  then obtain v flag where v: "itemId = Some v" "truthy (Some v)" "completed = Some (JBool flag)"
    by (cases itemId) auto
  from assms v(2) show ?thesis
    unfolding v(1,3) toggle_valid [OF v(2)]
    by (auto simp: update_items_def js_String_opt_def is_uuid_def no_match_map no_match_filter)
qed

lemma foreign_update_title:
  assumes "js_String_opt itemId = Inr s" "\<forall>r\<in>set (saved_items st). item_id r = s \<longrightarrow> user_id r \<noteq> userId"
  shows "saved_items (snd (patch_update_title coerce now itemId newTitle userId st)) = saved_items st
       \<and> (truthy itemId \<and> title_accepted newTitle \<and> is_uuid itemId \<longrightarrow>
            fst (patch_update_title coerce now itemId newTitle userId st) = Responded 404 not_found_or_denied)
       \<and> (\<not> (truthy itemId \<and> title_accepted newTitle \<and> is_uuid itemId) \<longrightarrow>
            snd (patch_update_title coerce now itemId newTitle userId st) = st
            \<and> (\<exists>body. fst (patch_update_title coerce now itemId newTitle userId st) = Responded 400 body
                  \<or> (fst (patch_update_title coerce now itemId newTitle userId st) = Responded 500 body
                     \<and> non_string_title (UpdateTitle itemId newTitle))))"
proof (cases "\<exists>t. newTitle = Some (JStr t)")
  case True
  then obtain t where t: "newTitle = Some (JStr t)" by blast
  from assms show ?thesis
    unfolding t
    by (auto simp: patch_update_title_def update_items_def js_String_opt_def is_uuid_def
          length_of_def greater_def no_match_map no_match_filter
        split: option.splits bool.splits)
next
  case False
  then have ns: "non_string_title (UpdateTitle itemId newTitle)" "\<not> title_accepted newTitle"
    by (cases newTitle rule: title_accepted.cases; simp)+
  from update_title_shape [of coerce now itemId newTitle userId st] False
  obtain resp where r: "patch_update_title coerce now itemId newTitle userId st = (resp, st)"
    by auto
  have "\<exists>body. resp = Responded 400 body \<or> resp = Responded 500 body"
    using r False
    by (auto simp: patch_update_title_def split: option.splits if_splits sum.splits bool.splits json.splits)
  with r ns show ?thesis by auto
qed

lemma foreign_delete:
  assumes "js_String_opt itemId = Inr s" "\<forall>r\<in>set (saved_items st). item_id r = s \<longrightarrow> user_id r \<noteq> userId"
  shows "saved_items (snd (delete_delete_item itemId userId st)) = saved_items st
       \<and> fst (delete_delete_item itemId userId st)
           = Responded 404 (JObj [(''error'', JStr ''Item not found or access denied'')])"
  using assms
  by (auto simp: delete_delete_item_def delete_items_def error_only_def no_match_filter no_match_filter_not)

lemma foreign_mutation:
  assumes "is_mutation route" "js_String_opt (route_itemId route) = Inr s"
      and "\<forall>r\<in>set (saved_items st). item_id r = s \<longrightarrow> user_id r \<noteq> userId"
  shows "saved_items (snd (handler_of coerce now route userId st)) = saved_items st
       \<and> (passes_checks route \<longrightarrow> fst (handler_of coerce now route userId st) = Responded 404 (denial route))
       \<and> (\<not> passes_checks route \<longrightarrow>
            snd (handler_of coerce now route userId st) = st
            \<and> (\<exists>body. fst (handler_of coerce now route userId st) = Responded 400 body
                  \<or> (fst (handler_of coerce now route userId st) = Responded 500 body \<and> non_string_title route)))"
proof (cases route)
  case (ToggleCompletion itemId completed)
  with assms foreign_toggle [of itemId s st userId now completed] show ?thesis
    by (simp add: not_found_or_denied_def)
next
  case (UpdateTitle itemId newTitle)
  with assms foreign_update_title [of itemId s st userId coerce now newTitle] show ?thesis
    by (simp add: not_found_or_denied_def)
next
  case (DeleteItem itemId)
  with assms foreign_delete [of itemId s st userId] show ?thesis by simp
qed (use assms in simp_all)

lemma no_bearer:
  "\<forall>h. authHeader = Some h \<longrightarrow> \<not> startsWith h ''Bearer '' \<Longrightarrow>
   authenticateUser getUser authHeader = Inl no_auth_token"
  by (cases authHeader) (auto simp: authenticateUser_def)

lemma startsWith_append: "startsWith (p @ s) p"
  by (induction p) auto

lemma bearer:
  "authenticateUser getUser (Some (''Bearer '' @ token)) =
     (case getUser token of
        AuthUser email \<Rightarrow> Inr email
      | AuthRejected \<Rightarrow> Inl invalid_token
      | AuthThrew \<Rightarrow> Inl auth_error)"
proof -
  have "startsWith (''Bearer '' @ token) ''Bearer ''" by (rule startsWith_append)
  then show ?thesis by (simp add: authenticateUser_def)
qed

text \<open>
  Claim C1, as stated, fails in two places. The list endpoint's read is filtered by the
  owner alone, not by an item id; and a caller who addresses another owner's item with a
  request that does not pass the handler's input checks is answered 400, not 404.
\<close>

theorem protected_items_counterexample:
  "queries (snd (serve sample_getUser nan_coercion 2000 (Some ''Bearer token-of-owner'') (ListItems None)
                   sample_store))
     = [\<lparr>q_table = ''saved_items'', q_op = Select, q_filters = [(''user_id'', ''owner@example.com'')]\<rparr>]
   \<and> user_id sample_item = ''owner@example.com''
   \<and> serve sample_getUser nan_coercion 2000 (Some ''Bearer token-of-other'')
         (ToggleCompletion (Some (JStr (item_id sample_item))) None) sample_store
       = (Responded 400 (error_only ''Invalid request: itemId and completed (boolean) are required''),
          sample_store)"
  by (simp add: serve_def protected_def authenticateUser_def sample_getUser_def sample_store_def
      sample_item_def get_saved_items_def select_items_def patch_toggle_completion_def Let_def)

text \<open>
  Claim C1, amended: on every protected item endpoint (list, detail fetch,
  toggle-completion, update-title, delete, process-content) a request without a bearer
  credential is answered 401 with the code \<^verbatim>\<open>NO_AUTH_TOKEN\<close>, and a request whose bearer token
  the identity provider rejects, or fails on, is answered 401 with the code
  \<^verbatim>\<open>INVALID_TOKEN\<close> or \<^verbatim>\<open>AUTH_ERROR\<close>; in all three cases the store, its query log included,
  is untouched. When the provider answers the token with a user, the handler runs for that
  user's identity and for no other: every read, update and delete that it issues is
  filtered by that identity, and by an item id too on every endpoint but the list, whose
  read is filtered by the owner (and the category) alone; the rows of every other owner
  are left as they were. A caller who addresses an item that is not theirs with
  toggle-completion, update-title or delete changes no row; the answer is 404 (never 403),
  with the handler's not-found body, exactly when the request passes the handler's input
  checks; a request that fails them is answered before any store access, with 400, or
  with 500 when it is an update-title whose title is not a string.
\<close>

theorem protected_items_are_owner_scoped:
  "((\<forall>h. authHeader = Some h \<longrightarrow> \<not> startsWith h ''Bearer '') \<longrightarrow>
      serve getUser coerce now authHeader route st = (Responded 401 (JObj
         [(''error'', JStr ''Authentication required. Please provide a valid token.''),
          (''code'', JStr ''NO_AUTH_TOKEN'')]), st))
   \<and> (authHeader = Some (''Bearer '' @ token) \<longrightarrow>
        (getUser token = AuthRejected \<longrightarrow> serve getUser coerce now authHeader route st = (Responded 401 (JObj
         [(''error'', JStr ''Invalid or expired authentication token. Please sign in again.''),
          (''code'', JStr ''INVALID_TOKEN'')]), st))
        \<and> (getUser token = AuthThrew \<longrightarrow> serve getUser coerce now authHeader route st = (Responded 401 (JObj
         [(''error'', JStr ''Authentication failed. Please sign in again.''),
          (''code'', JStr ''AUTH_ERROR'')]), st))
        \<and> (getUser token = AuthUser userId \<longrightarrow>
             serve getUser coerce now authHeader route st = handler_of coerce now route userId st
             \<and> scoped_run userId (addresses_item route) st (serve getUser coerce now authHeader route st)
             \<and> (is_mutation route \<longrightarrow> js_String_opt (route_itemId route) = Inr s \<longrightarrow>
                  (\<forall>r\<in>set (saved_items st). item_id r = s \<longrightarrow> user_id r \<noteq> userId) \<longrightarrow>
                  saved_items (snd (serve getUser coerce now authHeader route st)) = saved_items st
                  \<and> (passes_checks route \<longrightarrow> fst (serve getUser coerce now authHeader route st) = Responded 404 (denial route))
                  \<and> (\<not> passes_checks route \<longrightarrow>
                       snd (serve getUser coerce now authHeader route st) = st
                       \<and> (\<exists>body. fst (serve getUser coerce now authHeader route st) = Responded 400 body
                             \<or> (fst (serve getUser coerce now authHeader route st) = Responded 500 body \<and> non_string_title route))))))"
proof -
  have anon: "(\<forall>h. authHeader = Some h \<longrightarrow> \<not> startsWith h ''Bearer '') \<longrightarrow>
      serve getUser coerce now authHeader route st = (Responded 401 (JObj
         [(''error'', JStr ''Authentication required. Please provide a valid token.''),
          (''code'', JStr ''NO_AUTH_TOKEN'')]), st)"
    by (simp add: serve_def protected_def no_bearer no_auth_token_def)
  have rejected: "serve getUser coerce now authHeader route st = (Responded 401 (JObj
         [(''error'', JStr ''Invalid or expired authentication token. Please sign in again.''),
          (''code'', JStr ''INVALID_TOKEN'')]), st)"
    if "authHeader = Some (''Bearer '' @ token)" "getUser token = AuthRejected"
    unfolding serve_def protected_def that(1) bearer
    by (simp add: that(2) invalid_token_def auth_error_def)
  have threw: "serve getUser coerce now authHeader route st = (Responded 401 (JObj
         [(''error'', JStr ''Authentication failed. Please sign in again.''),
          (''code'', JStr ''AUTH_ERROR'')]), st)"
    if "authHeader = Some (''Bearer '' @ token)" "getUser token = AuthThrew"
    unfolding serve_def protected_def that(1) bearer
    by (simp add: that(2) invalid_token_def auth_error_def)
  have run: "serve getUser coerce now authHeader route st = handler_of coerce now route userId st"
    if "authHeader = Some (''Bearer '' @ token)" "getUser token = AuthUser userId"
    unfolding serve_def protected_def that(1) bearer
    by (simp add: that(2) invalid_token_def auth_error_def)
  have scoped: "scoped_run userId (addresses_item route) st (serve getUser coerce now authHeader route st)"
    if "authHeader = Some (''Bearer '' @ token)" "getUser token = AuthUser userId"
    unfolding run [OF that] by (rule scoped_handler)
  have foreign: "saved_items (snd (serve getUser coerce now authHeader route st)) = saved_items st
                  \<and> (passes_checks route \<longrightarrow> fst (serve getUser coerce now authHeader route st) = Responded 404 (denial route))
                  \<and> (\<not> passes_checks route \<longrightarrow>
                       snd (serve getUser coerce now authHeader route st) = st
                       \<and> (\<exists>body. fst (serve getUser coerce now authHeader route st) = Responded 400 body
                             \<or> (fst (serve getUser coerce now authHeader route st) = Responded 500 body \<and> non_string_title route)))"
    if "authHeader = Some (''Bearer '' @ token)" "getUser token = AuthUser userId"
      and "is_mutation route" "js_String_opt (route_itemId route) = Inr s"
      "\<forall>r\<in>set (saved_items st). item_id r = s \<longrightarrow> user_id r \<noteq> userId"
    unfolding run [OF that(1,2)] by (rule foreign_mutation [OF that(3-5)])
  from anon rejected threw run scoped foreign show ?thesis by blast
qed

text \<open>
  Witness for C1: another verified caller's delete of the sample owner's item is answered
  404 and leaves the row; the same request without a credential, and with a token that
  the provider rejects, is answered 401 and leaves the store.
\<close>

theorem protected_items_are_owner_scoped_witness:
  "saved_items (snd (serve sample_getUser nan_coercion 2000 (Some ''Bearer token-of-other'')
                       (DeleteItem (Some (JStr (item_id sample_item)))) sample_store))
     = saved_items sample_store
   \<and> fst (serve sample_getUser nan_coercion 2000 (Some ''Bearer token-of-other'')
             (DeleteItem (Some (JStr (item_id sample_item)))) sample_store)
     = Responded 404 (JObj [(''error'', JStr ''Item not found or access denied'')])
   \<and> serve sample_getUser nan_coercion 2000 None (DeleteItem (Some (JStr (item_id sample_item)))) sample_store
     = (Responded 401 (JObj
         [(''error'', JStr ''Authentication required. Please provide a valid token.''),
          (''code'', JStr ''NO_AUTH_TOKEN'')]), sample_store)
   \<and> serve sample_getUser nan_coercion 2000 (Some ''Bearer token-of-nobody'')
        (DeleteItem (Some (JStr (item_id sample_item)))) sample_store
     = (Responded 401 (JObj
         [(''error'', JStr ''Invalid or expired authentication token. Please sign in again.''),
          (''code'', JStr ''INVALID_TOKEN'')]), sample_store)"
proof -
  let ?route = "DeleteItem (Some (JStr (item_id sample_item)))"
  have other: "sample_getUser ''token-of-other'' = AuthUser ''other@example.com''"
    by (simp add: sample_getUser_def)
  have nobody: "sample_getUser ''token-of-nobody'' = AuthRejected"
    by (simp add: sample_getUser_def)
  have foreign: "\<forall>r\<in>set (saved_items sample_store). item_id r = item_id sample_item \<longrightarrow> user_id r \<noteq> ''other@example.com''"
    by (simp add: sample_store_def sample_item_def)
  have target: "js_String_opt (route_itemId ?route) = Inr (item_id sample_item)"
    by (simp add: js_String_opt_def)
  have mut: "is_mutation ?route" by simp
  have pass: "passes_checks ?route" by simp
  note inst = protected_items_are_owner_scoped
    [of _ sample_getUser nan_coercion 2000 ?route sample_store _ _ "item_id sample_item"]
  have h1: "Some ''Bearer token-of-other'' = Some (''Bearer '' @ ''token-of-other'')" by simp
  have h2: "Some ''Bearer token-of-nobody'' = Some (''Bearer '' @ ''token-of-nobody'')" by simp
  note mine = inst [of "Some ''Bearer token-of-other''" "''token-of-other''" "''other@example.com''",
      THEN conjunct2, THEN mp, OF h1, THEN conjunct2, THEN conjunct2, THEN mp, OF other,
      THEN conjunct2, THEN conjunct2, THEN mp, OF mut, THEN mp, OF target, THEN mp, OF foreign]
  from mine [THEN conjunct1]
  have kept: "saved_items (snd (serve sample_getUser nan_coercion 2000 (Some ''Bearer token-of-other'') ?route sample_store))
     = saved_items sample_store" .
  from mine [THEN conjunct2, THEN conjunct1, THEN mp, OF pass]
  have status: "fst (serve sample_getUser nan_coercion 2000 (Some ''Bearer token-of-other'') ?route sample_store)
     = Responded 404 (JObj [(''error'', JStr ''Item not found or access denied'')])"
    by simp
  from inst [of None, THEN conjunct1]
  have anon: "serve sample_getUser nan_coercion 2000 None ?route sample_store = (Responded 401 (JObj
         [(''error'', JStr ''Authentication required. Please provide a valid token.''),
          (''code'', JStr ''NO_AUTH_TOKEN'')]), sample_store)"
    by simp
  from inst [of "Some ''Bearer token-of-nobody''" "''token-of-nobody''",
      THEN conjunct2, THEN mp, OF h2, THEN conjunct1, THEN mp, OF nobody]
  have denied: "serve sample_getUser nan_coercion 2000 (Some ''Bearer token-of-nobody'') ?route sample_store
     = (Responded 401 (JObj
         [(''error'', JStr ''Invalid or expired authentication token. Please sign in again.''),
          (''code'', JStr ''INVALID_TOKEN'')]), sample_store)" .
  from kept status anon denied show ?thesis by simp
qed

section \<open>Properties of the Source Resolver\<close>







section \<open>Properties of the Content Extractor\<close>

lemma map_of_assign: "map_of (assign k v kvs) = (map_of kvs)(k \<mapsto> v)"
  by (induction kvs) (auto simp: fun_eq_iff)

lemma field_set_field:
  "field (set_field (JObj kvs) k v) k' = (if k' = k then Some v else field (JObj kvs) k')"
  by (simp add: field_def set_field_def map_of_assign)

lemma slice_tags_bound: "slice_tags t = Inr tags \<Longrightarrow> json_length (Some tags) \<le> 5"
  by (auto simp: slice_tags_def json_length_def split: if_splits option.splits json.splits)

lemma validate_and_clean_bounds:
  assumes "validate_and_clean r = Inr v"
  shows "json_length (field v ''title'') \<le> 60 \<and> json_length (field v ''summary'') \<le> 300
       \<and> json_length (field v ''tags'') \<le> 5"
proof -
  from assms obtain kvs t sm tags where
    r: "r = Some (JObj kvs)" and tags: "slice_tags (field (JObj kvs) ''tags'') = Inr tags"
    and v: "v = set_field (set_field (set_field (JObj kvs) ''title'' (JStr (take 60 t)))
                 ''summary'' (JStr (take 300 sm))) ''tags'' tags"
    by (auto simp: validate_and_clean_def field_def split: option.splits json.splits sum.splits if_splits)
  show ?thesis
    using slice_tags_bound [OF tags]
    by (simp add: v set_field_def field_def map_of_assign json_length_def)
qed

lemma analyze_bounds_outside_instagram:
  assumes "post_analyze parse chat c contentType = Responded 200 v"
      and "\<not> (contentType = ''url'' \<and> (\<exists>u. content_url c = Some u \<and> u \<noteq> [] \<and> is_instagram u))"
  shows "json_length (field v ''title'') \<le> 60 \<and> json_length (field v ''summary'') \<le> 300
       \<and> json_length (field v ''tags'') \<le> 5"
proof -
  from assms(1) have "analyze_try parse chat c contentType = Inr v"
    by (auto simp: post_analyze_def analyze_catch_def fallbackResponses_def lookup_identifier_def
        catch_scope_def split: sum.splits)
  with assms(2) obtain r where "validate_and_clean r = Inr v"
    by (auto simp: analyze_try_def split: if_splits sum.splits option.splits)
  then show ?thesis by (rule validate_and_clean_bounds)
qed

text \<open>
  Claim C2 fails on the Instagram branch, which sends its record by an early return and so
  skips the cleanup that every other branch goes through (lemma
  \<open>analyze_bounds_outside_instagram\<close>): the title is cut to 60 characters there, the summary
  is the scraped description as it came. For a post whose description has 301 characters
  the summary sent has 301.
\<close>

theorem analyze_instagram_summary_unbounded:
  "post_analyze parse chat (PageContent instagram_page) ''url'' =
     Responded 200 (JObj
       [(''title'', JStr ''Sunset over the bay tonight''),
        (''category'', JStr ''Entertainment''),
        (''summary'', JStr (replicate 301 (CHR ''x''))),
        (''tags'', JArr [JStr ''instagram'', JStr ''photo'', JStr ''social-media'']),
        (''content_type'', JStr ''photo''),
        (''platform'', JStr ''instagram'')])
   \<and> length (replicate 301 (CHR ''x'')) = 301"
proof -
  have insta: "is_instagram ''https://www.instagram.com/p/Cabc123/''"
    by (simp add: is_instagram_def)
  have pt: "postType_of ''https://www.instagram.com/p/Cabc123/'' = ''p''"
    by (simp add: postType_of_def segment_here_def id_char_def)
  have ti: "clean_instagram_title ''Sunset over the bay tonight'' = ''Sunset over the bay tonight''"
    by (simp add: clean_instagram_title_def)
  have ne: "replicate 301 (CHR ''x'') \<noteq> []" by simp
  show ?thesis
    using ne
    by (simp add: post_analyze_def analyze_try_def content_url_def instagram_page_def insta
        instagram_result_def Let_def pt ti or_else_def content_title_def content_description_def
        content_author_def)
qed

text \<open>
  The fallback of the catch block is never sent: \<^verbatim>\<open>content\<close> is not in scope there.
\<close>

lemma analyze_catch_out_of_scope: "analyze_catch catch_scope = Uncaught (ReferenceError ''content'')"
  by (simp add: analyze_catch_def fallbackResponses_def lookup_identifier_def catch_scope_def)

text \<open>
  Claim C3 fails on the code: for every exception raised in the try block of
  \<^verbatim>\<open>POST /api/analyze\<close>, whatever the content type, the catch block throws a ReferenceError
  while it builds the table of fallback records, and the handler sends no response.
\<close>

theorem analyze_failure_is_uncaught:
  "isl (analyze_try parse chat c contentType) \<Longrightarrow>
   post_analyze parse chat c contentType = Uncaught (ReferenceError ''content'')"
  by (auto simp: post_analyze_def analyze_catch_out_of_scope isl_def)

text \<open>
  Witness for C3: an image analysis whose model call fails.
\<close>

theorem analyze_failure_is_uncaught_witness:
  "analyze_try (accepts_only ''{}'' (JObj [])) failing_model (TextContent ''https://cdn.example.com/shot.png'') ''image''
     = Inl (Error ''model unavailable'')
   \<and> post_analyze (accepts_only ''{}'' (JObj [])) failing_model (TextContent ''https://cdn.example.com/shot.png'') ''image''
     = Uncaught (ReferenceError ''content'')"
proof -
  have t: "analyze_try (accepts_only ''{}'' (JObj [])) failing_model (TextContent ''https://cdn.example.com/shot.png'') ''image''
     = Inl (Error ''model unavailable'')"
    by (simp add: analyze_try_def ask_model_def failing_model_def)
  then have "isl (analyze_try (accepts_only ''{}'' (JObj [])) failing_model (TextContent ''https://cdn.example.com/shot.png'') ''image'')"
    by simp
  from analyze_failure_is_uncaught [OF this] t show ?thesis by simp
qed

text \<open>
  What the catch block would send if the bindings of the try block were in its scope: the
  fallback record for a string content, and a TypeError for a scraped page, which has no
  \<^verbatim>\<open>split\<close>.
\<close>

lemma fallback_in_try_scope_text:
  "analyze_catch (try_scope (TextContent s) ''image'') =
     Responded 200 (fallback_record ''Saved Screenshot''
        ''Screenshot saved successfully. AI analysis had an issue, but your content is safely stored.''
        [''screenshot'', ''saved''])"
  by (simp add: analyze_catch_def fallbackResponses_def lookup_identifier_def try_scope_def)

lemma fallback_in_try_scope_page:
  "analyze_catch (try_scope (PageContent p) contentType) = Uncaught TypeError"
  by (simp add: analyze_catch_def fallbackResponses_def lookup_identifier_def try_scope_def)

section \<open>Properties of the feature suggestions\<close>








lemma logged_tables [simp]:
  "feature_votes (logged t op' fs st) = feature_votes st"
  "user_votes (logged t op' fs st) = user_votes st"
  by (simp_all add: logged_def)

lemma trim_Nil [simp]: "trim [] = []"
  by (simp add: trim_def)

lemma description_too_long_simps:
  "description_too_long coerce None = Inr False"
  "description_too_long coerce (Some JNull) = Inr False"
  "description_too_long coerce (Some (JBool b)) = Inr False"
  "description_too_long coerce (Some (JNum n)) = Inr False"
  "description_too_long coerce (Some (JStr x)) = Inr (length x > 500)"
  "description_too_long coerce (Some (JArr xs)) = Inr (length xs > 500)"
  by (auto simp: description_too_long_def length_of_def greater_def)





section \<open>Properties of the votes\<close>

lemma single_one: "single [x] = Inr x"
  by (simp add: single_def)

lemma single_Nil': "single [] = Inl PGRST116"
  by (simp add: single_def)

lemma vote_handler:
  "fid \<noteq> [] \<Longrightarrow>
   post_features_vote rpc_fails (Some fid) (Some (vote_type_name kind)) userId st =
     (Responded 200 (JObj [(''success'', JBool True), (''vote_change'', JNum (fst (apply_vote userId fid kind st)))]),
      update_vote_count rpc_fails fid (fst (apply_vote userId fid kind st)) (snd (apply_vote userId fid kind st)))"
  by (cases kind) (simp_all add: post_features_vote_def parse_vote_type_def vote_type_name_def split: prod.splits)

lemma apply_first:
  "\<not> list_ex (vote_of userId fid) (user_votes st) \<Longrightarrow>
   fst (apply_vote userId fid kind st) = (if kind = upvote then 1 else - 1)
   \<and> user_votes (snd (apply_vote userId fid kind st))
       = user_votes st @ [\<lparr>vote_user_id = userId, vote_feature_id = fid, vote_kind = kind\<rparr>]
   \<and> feature_votes (snd (apply_vote userId fid kind st)) = feature_votes st"
proof -
  assume n: "\<not> list_ex (vote_of userId fid) (user_votes st)"
  then have "filter (vote_of userId fid) (user_votes st) = []"
    by (simp add: list_ex_iff filter_empty_conv)
  with n show ?thesis
    by (simp add: apply_vote_def single_Nil' insert_vote_def vote_of_def)
qed

lemma apply_same:
  "filter (vote_of userId fid) (user_votes st) = [ev] \<Longrightarrow> vote_kind ev = kind \<Longrightarrow>
   fst (apply_vote userId fid kind st) = (if kind = upvote then - 1 else 1)
   \<and> user_votes (snd (apply_vote userId fid kind st))
       = filter (\<lambda>v. \<not> vote_of userId fid v) (user_votes st)
   \<and> feature_votes (snd (apply_vote userId fid kind st)) = feature_votes st"
  by (simp add: apply_vote_def single_one)

lemma apply_flip:
  "filter (vote_of userId fid) (user_votes st) = [ev] \<Longrightarrow> vote_kind ev \<noteq> kind \<Longrightarrow>
   fst (apply_vote userId fid kind st) = (if kind = upvote then 2 else - 2)
   \<and> user_votes (snd (apply_vote userId fid kind st))
       = map (\<lambda>v. if vote_of userId fid v then v\<lparr>vote_kind := kind\<rparr> else v) (user_votes st)
   \<and> feature_votes (snd (apply_vote userId fid kind st)) = feature_votes st"
  by (simp add: apply_vote_def single_one)

lemma unique_row_map:
  "filter P xs = [x0] \<Longrightarrow> map (\<lambda>f. if P f then g x0 f else f) xs = map (\<lambda>f. if P f then g f f else f) xs"
proof -
  assume a: "filter P xs = [x0]"
  have "\<And>f. f \<in> set xs \<Longrightarrow> P f \<Longrightarrow> f = x0"
  proof -
    fix f assume "f \<in> set xs" "P f"
    then have "f \<in> set (filter P xs)" by simp
    with a show "f = x0" by simp
  qed
  then show ?thesis by (auto intro!: map_cong)
qed

lemma count_update:
  assumes u: "filter (\<lambda>f. feature_id f = fid) (feature_votes st) = [f0]"
  shows "feature_votes (update_vote_count rpc_fails fid change st)
         = map (\<lambda>f. if feature_id f = fid then f\<lparr>votes_count := clamp rpc_fails (votes_count f + change)\<rparr> else f)
             (feature_votes st)
       \<and> user_votes (update_vote_count rpc_fails fid change st) = user_votes st"
proof (cases rpc_fails)
  case False
  then show ?thesis by (simp add: update_vote_count_def increment_votes_def clamp_def)
next
  case True
  have step: "feature_votes (update_vote_count True fid change st)
      = map (\<lambda>f. if feature_id f = fid then f\<lparr>votes_count := max 0 (votes_count f0 + change)\<rparr> else f) (feature_votes st)"
    using u by (simp add: update_vote_count_def single_one)
  have eq: "map (\<lambda>f. if feature_id f = fid then f\<lparr>votes_count := max 0 (votes_count f0 + change)\<rparr> else f) (feature_votes st)
      = map (\<lambda>f. if feature_id f = fid then f\<lparr>votes_count := max 0 (votes_count f + change)\<rparr> else f) (feature_votes st)"
    using unique_row_map [OF u, of "\<lambda>x f. f\<lparr>votes_count := max 0 (votes_count x + change)\<rparr>"] by simp
  have votes: "user_votes (update_vote_count True fid change st) = user_votes st"
    using u by (simp add: update_vote_count_def single_one)
  from True have t: "rpc_fails = True" by simp
  show ?thesis
    unfolding t step eq votes by (simp add: clamp_def)
qed

lemma unique_after:
  "filter (\<lambda>f. feature_id f = fid) xs = [f0] \<Longrightarrow>
   filter (\<lambda>f. feature_id f = fid) (map (\<lambda>f. if feature_id f = fid then f\<lparr>votes_count := h f\<rparr> else f) xs)
     = [f0\<lparr>votes_count := h f0\<rparr>]"
proof -
  assume a: "filter (\<lambda>f. feature_id f = fid) xs = [f0]"
  have "filter (\<lambda>f. feature_id f = fid) (map (\<lambda>f. if feature_id f = fid then f\<lparr>votes_count := h f\<rparr> else f) xs)
      = map (\<lambda>f. f\<lparr>votes_count := h f\<rparr>) (filter (\<lambda>f. feature_id f = fid) xs)"
    by (induction xs) auto
  with a show ?thesis by simp
qed

lemma insert_then_remove:
  "\<not> list_ex P xs \<Longrightarrow> P v \<Longrightarrow> filter P (xs @ [v]) = [v] \<and> filter (\<lambda>x. \<not> P x) (xs @ [v]) = xs"
  by (induction xs) auto


lemma vote_effect:
  assumes fid: "fid \<noteq> []" and u: "filter (\<lambda>f. feature_id f = fid) (feature_votes st) = [f0]"
      and a: "fst (apply_vote userId fid kind st) = change"
             "user_votes (snd (apply_vote userId fid kind st)) = votes"
             "feature_votes (snd (apply_vote userId fid kind st)) = feature_votes st"
  shows "fst (post_features_vote rpc_fails (Some fid) (Some (vote_type_name kind)) userId st)
           = Responded 200 (JObj [(''success'', JBool True), (''vote_change'', JNum change)])
       \<and> user_votes (snd (post_features_vote rpc_fails (Some fid) (Some (vote_type_name kind)) userId st)) = votes
       \<and> feature_votes (snd (post_features_vote rpc_fails (Some fid) (Some (vote_type_name kind)) userId st))
           = map (\<lambda>f. if feature_id f = fid then f\<lparr>votes_count := clamp rpc_fails (votes_count f + change)\<rparr> else f)
               (feature_votes st)"
proof -
  from u a(3) have u': "filter (\<lambda>f. feature_id f = fid) (feature_votes (snd (apply_vote userId fid kind st))) = [f0]"
    by simp
  from count_update [OF u', of rpc_fails change] a show ?thesis
    by (simp add: vote_handler [OF fid])
qed

lemma clamp_round_trip:
  "0 \<le> c \<or> (\<not> rpc1 \<and> \<not> rpc2) \<Longrightarrow> clamp rpc2 (clamp rpc1 (c + 1) + - 1) = c"
  by (auto simp: clamp_def)

text \<open>
  Claim C5, as stated, fails: two successive upvotes do not always leave the count as it
  was. The stored procedure does not floor the count, so two downvotes take a new feature
  from 1 to -1; when the two upvotes of a third owner are then both counted on the manual
  path, the count ends at 0.
\<close>

theorem vote_toggle_counterexample:
  "map votes_count (feature_votes downvoted_store) = [- 1]
   \<and> \<not> list_ex (vote_of ''third@example.com'' ''f-1'') (user_votes downvoted_store)
   \<and> map votes_count (feature_votes (snd
        (post_features_vote True (Some ''f-1'') (Some ''upvote'') ''third@example.com''
           (snd (post_features_vote True (Some ''f-1'') (Some ''upvote'') ''third@example.com''
                   downvoted_store))))) = [0]"
  by (simp add: downvoted_store_def feature_store_def dark_mode_feature_def post_features_vote_def
      parse_vote_type_def apply_vote_def update_vote_count_def increment_votes_def single_def
      insert_vote_def vote_of_def logged_def)

text \<open>
  Claim C5, amended: for every owner and existing feature, \<^verbatim>\<open>POST /api/features/vote\<close>
  answers with a vote change of +1 (upvote) or -1 (downvote) for a first vote, whose row it
  inserts; of the opposite sign for a vote in the direction of the owner's present vote,
  whose row it deletes; and of +2 or -2 for a vote in the other direction, whose row it
  updates. The stored count becomes the old count plus the change, floored at zero on the
  manual path. Two successive upvotes by an owner without a vote leave the vote rows as
  they were, and the feature's count too whenever that count was not negative or both
  updates went through the stored procedure.
\<close>

theorem vote_toggle_nets:
  assumes fid: "fid \<noteq> []" and u: "filter (\<lambda>f. feature_id f = fid) (feature_votes st) = [f0]"
  shows
    "(\<not> list_ex (vote_of userId fid) (user_votes st) \<longrightarrow>
        fst (post_features_vote rpc_fails (Some fid) (Some (vote_type_name kind)) userId st)
          = Responded 200 (JObj [(''success'', JBool True),
                                 (''vote_change'', JNum (if kind = upvote then 1 else - 1))])
        \<and> user_votes (snd (post_features_vote rpc_fails (Some fid) (Some (vote_type_name kind)) userId st))
            = user_votes st @ [\<lparr>vote_user_id = userId, vote_feature_id = fid, vote_kind = kind\<rparr>]
        \<and> feature_votes (snd (post_features_vote rpc_fails (Some fid) (Some (vote_type_name kind)) userId st))
            = map (\<lambda>f. if feature_id f = fid
                        then f\<lparr>votes_count := clamp rpc_fails (votes_count f + (if kind = upvote then 1 else - 1))\<rparr>
                        else f) (feature_votes st))
     \<and> (\<forall>ev. filter (vote_of userId fid) (user_votes st) = [ev] \<and> vote_kind ev = kind \<longrightarrow>
        fst (post_features_vote rpc_fails (Some fid) (Some (vote_type_name kind)) userId st)
          = Responded 200 (JObj [(''success'', JBool True),
                                 (''vote_change'', JNum (if kind = upvote then - 1 else 1))])
        \<and> user_votes (snd (post_features_vote rpc_fails (Some fid) (Some (vote_type_name kind)) userId st))
            = filter (\<lambda>v. \<not> vote_of userId fid v) (user_votes st)
        \<and> feature_votes (snd (post_features_vote rpc_fails (Some fid) (Some (vote_type_name kind)) userId st))
            = map (\<lambda>f. if feature_id f = fid
                        then f\<lparr>votes_count := clamp rpc_fails (votes_count f + (if kind = upvote then - 1 else 1))\<rparr>
                        else f) (feature_votes st))
     \<and> (\<forall>ev. filter (vote_of userId fid) (user_votes st) = [ev] \<and> vote_kind ev \<noteq> kind \<longrightarrow>
        fst (post_features_vote rpc_fails (Some fid) (Some (vote_type_name kind)) userId st)
          = Responded 200 (JObj [(''success'', JBool True),
                                 (''vote_change'', JNum (if kind = upvote then 2 else - 2))])
        \<and> user_votes (snd (post_features_vote rpc_fails (Some fid) (Some (vote_type_name kind)) userId st))
            = map (\<lambda>v. if vote_of userId fid v then v\<lparr>vote_kind := kind\<rparr> else v) (user_votes st)
        \<and> feature_votes (snd (post_features_vote rpc_fails (Some fid) (Some (vote_type_name kind)) userId st))
            = map (\<lambda>f. if feature_id f = fid
                        then f\<lparr>votes_count := clamp rpc_fails (votes_count f + (if kind = upvote then 2 else - 2))\<rparr>
                        else f) (feature_votes st))
     \<and> (\<not> list_ex (vote_of userId fid) (user_votes st) \<longrightarrow>
        (0 \<le> votes_count f0 \<or> (\<not> rpc1 \<and> \<not> rpc2)) \<longrightarrow>
        user_votes (snd (post_features_vote rpc2 (Some fid) (Some ''upvote'') userId
                           (snd (post_features_vote rpc1 (Some fid) (Some ''upvote'') userId st))))
          = user_votes st
        \<and> feature_votes (snd (post_features_vote rpc2 (Some fid) (Some ''upvote'') userId
                           (snd (post_features_vote rpc1 (Some fid) (Some ''upvote'') userId st))))
          = feature_votes st)"
proof (intro conjI allI impI)
  {
    assume n: "\<not> list_ex (vote_of userId fid) (user_votes st)"
    from apply_first [OF n, of kind] vote_effect [OF fid u, of userId kind _ _ rpc_fails]
    show "fst (post_features_vote rpc_fails (Some fid) (Some (vote_type_name kind)) userId st)
          = Responded 200 (JObj [(''success'', JBool True),
                                 (''vote_change'', JNum (if kind = upvote then 1 else - 1))])"
      and "user_votes (snd (post_features_vote rpc_fails (Some fid) (Some (vote_type_name kind)) userId st))
            = user_votes st @ [\<lparr>vote_user_id = userId, vote_feature_id = fid, vote_kind = kind\<rparr>]"
      and "feature_votes (snd (post_features_vote rpc_fails (Some fid) (Some (vote_type_name kind)) userId st))
            = map (\<lambda>f. if feature_id f = fid
                        then f\<lparr>votes_count := clamp rpc_fails (votes_count f + (if kind = upvote then 1 else - 1))\<rparr>
                        else f) (feature_votes st)"
      by blast+
  }
  {
    fix ev assume "filter (vote_of userId fid) (user_votes st) = [ev] \<and> vote_kind ev = kind"
    then have e: "filter (vote_of userId fid) (user_votes st) = [ev]" "vote_kind ev = kind" by auto
    from apply_same [OF e] vote_effect [OF fid u, of userId kind _ _ rpc_fails]
    show "fst (post_features_vote rpc_fails (Some fid) (Some (vote_type_name kind)) userId st)
          = Responded 200 (JObj [(''success'', JBool True),
                                 (''vote_change'', JNum (if kind = upvote then - 1 else 1))])"
      and "user_votes (snd (post_features_vote rpc_fails (Some fid) (Some (vote_type_name kind)) userId st))
            = filter (\<lambda>v. \<not> vote_of userId fid v) (user_votes st)"
      and "feature_votes (snd (post_features_vote rpc_fails (Some fid) (Some (vote_type_name kind)) userId st))
            = map (\<lambda>f. if feature_id f = fid
                        then f\<lparr>votes_count := clamp rpc_fails (votes_count f + (if kind = upvote then - 1 else 1))\<rparr>
                        else f) (feature_votes st)"
      by blast+
  }
  {
    fix ev assume "filter (vote_of userId fid) (user_votes st) = [ev] \<and> vote_kind ev \<noteq> kind"
    then have e: "filter (vote_of userId fid) (user_votes st) = [ev]" "vote_kind ev \<noteq> kind" by auto
    from apply_flip [OF e] vote_effect [OF fid u, of userId kind _ _ rpc_fails]
    show "fst (post_features_vote rpc_fails (Some fid) (Some (vote_type_name kind)) userId st)
          = Responded 200 (JObj [(''success'', JBool True),
                                 (''vote_change'', JNum (if kind = upvote then 2 else - 2))])"
      and "user_votes (snd (post_features_vote rpc_fails (Some fid) (Some (vote_type_name kind)) userId st))
            = map (\<lambda>v. if vote_of userId fid v then v\<lparr>vote_kind := kind\<rparr> else v) (user_votes st)"
      and "feature_votes (snd (post_features_vote rpc_fails (Some fid) (Some (vote_type_name kind)) userId st))
            = map (\<lambda>f. if feature_id f = fid
                        then f\<lparr>votes_count := clamp rpc_fails (votes_count f + (if kind = upvote then 2 else - 2))\<rparr>
                        else f) (feature_votes st)"
      by blast+
  }
  {
    assume n: "\<not> list_ex (vote_of userId fid) (user_votes st)"
      and c: "0 \<le> votes_count f0 \<or> (\<not> rpc1 \<and> \<not> rpc2)"
    let ?row = "\<lparr>vote_user_id = userId, vote_feature_id = fid, vote_kind = upvote\<rparr>"
    let ?st1 = "snd (post_features_vote rpc1 (Some fid) (Some ''upvote'') userId st)"
    let ?st2 = "snd (post_features_vote rpc2 (Some fid) (Some ''upvote'') userId ?st1)"
    have name: "vote_type_name upvote = ''upvote''" by (simp add: vote_type_name_def)
    from apply_first [OF n, of upvote] vote_effect [OF fid u, of userId upvote _ _ rpc1]
    have v1: "user_votes ?st1 = user_votes st @ [?row]"
      and f1: "feature_votes ?st1
            = map (\<lambda>f. if feature_id f = fid then f\<lparr>votes_count := clamp rpc1 (votes_count f + 1)\<rparr> else f)
                (feature_votes st)"
      unfolding name by simp_all
    have row: "vote_of userId fid ?row" by (simp add: vote_of_def)
    from insert_then_remove [OF n row]
    have e: "filter (vote_of userId fid) (user_votes ?st1) = [?row]"
      and restored: "filter (\<lambda>v. \<not> vote_of userId fid v) (user_votes ?st1) = user_votes st"
      unfolding v1 by simp_all
    have u1: "filter (\<lambda>f. feature_id f = fid) (feature_votes ?st1)
        = [f0\<lparr>votes_count := clamp rpc1 (votes_count f0 + 1)\<rparr>]"
      unfolding f1 by (rule unique_after [OF u])
    from apply_same [OF e, of upvote] vote_effect [OF fid u1, of userId upvote _ _ rpc2]
    have v2: "user_votes ?st2 = filter (\<lambda>v. \<not> vote_of userId fid v) (user_votes ?st1)"
      and f2: "feature_votes ?st2
            = map (\<lambda>f. if feature_id f = fid then f\<lparr>votes_count := clamp rpc2 (votes_count f + - 1)\<rparr> else f)
                (feature_votes ?st1)"
      unfolding name by simp_all
    show "user_votes ?st2 = user_votes st" unfolding v2 restored ..
    have uniq: "\<And>f. f \<in> set (feature_votes st) \<Longrightarrow> feature_id f = fid \<Longrightarrow> f = f0"
    proof -
      fix f assume "f \<in> set (feature_votes st)" "feature_id f = fid"
      then have "f \<in> set (filter (\<lambda>f. feature_id f = fid) (feature_votes st))" by simp
      with u show "f = f0" by simp
    qed
    show "feature_votes ?st2 = feature_votes st"
      unfolding f2 f1 using uniq clamp_round_trip [OF c]
      by (auto intro!: map_idI)
  }
qed


text \<open>
  Witness for C5, the scenario of the specification: two successive upvotes of a feature
  with count 1 by an owner without a vote, both on the manual path, leave the count and
  the vote rows as they were.
\<close>

theorem vote_toggle_nets_witness:
  "feature_votes (snd (post_features_vote True (Some ''f-1'') (Some ''upvote'') ''other@example.com''
                    (snd (post_features_vote True (Some ''f-1'') (Some ''upvote'') ''other@example.com''
                            (feature_store 1)))))
     = feature_votes (feature_store 1)
   \<and> user_votes (snd (post_features_vote True (Some ''f-1'') (Some ''upvote'') ''other@example.com''
                    (snd (post_features_vote True (Some ''f-1'') (Some ''upvote'') ''other@example.com''
                            (feature_store 1)))))
     = user_votes (feature_store 1)"
proof -
  have fid: "''f-1'' \<noteq> []" by simp
  have u: "filter (\<lambda>f. feature_id f = ''f-1'') (feature_votes (feature_store 1)) = [dark_mode_feature\<lparr>votes_count := 1\<rparr>]"
    by (simp add: feature_store_def dark_mode_feature_def)
  have n: "\<not> list_ex (vote_of ''other@example.com'' ''f-1'') (user_votes (feature_store 1))"
    by (simp add: feature_store_def)
  have c: "0 \<le> votes_count (dark_mode_feature\<lparr>votes_count := 1\<rparr>) \<or> (\<not> True \<and> \<not> True)"
    by simp
  from vote_toggle_nets [OF fid u, of "''other@example.com''" True upvote True True,
      THEN conjunct2, THEN conjunct2, THEN conjunct2, THEN mp, OF n, THEN mp, OF c]
  show ?thesis by simp
qed

end
